theory Spec2Isabelle
  imports Complex_Main
begin

section \<open>Bird jump game: the simulation core of BirdGame.py\<close>

text \<open>
  The model follows \<^verbatim>\<open>src/BirdGame.py\<close>. Python's \<^verbatim>\<open>float\<close> is modelled by \<^typ>\<open>real\<close>
  (exact arithmetic, no rounding, no infinities, no NaN) and Python's \<^verbatim>\<open>int\<close> by
  \<^typ>\<open>int\<close>. Drawing code (\<^verbatim>\<open>draw\<close>, \<^verbatim>\<open>draw_text\<close>, \<^verbatim>\<open>draw_background\<close>,
  \<^verbatim>\<open>draw_ground\<close>) only reads the state and is not modelled.
\<close>

subsection \<open>Configuration constants\<close>

definition WIDTH :: int where "WIDTH = 480"
definition HEIGHT :: int where "HEIGHT = 720"

definition BIRD_X :: int where "BIRD_X = 120"
definition BIRD_RADIUS :: int where "BIRD_RADIUS = 18"
definition GRAVITY :: real where "GRAVITY = 1000"
definition JUMP_VELOCITY :: real where "JUMP_VELOCITY = - 380"
definition MAX_FALL_SPEED :: real where "MAX_FALL_SPEED = 800"

definition PIPE_WIDTH :: int where "PIPE_WIDTH = 88"
definition PIPE_GAP :: int where "PIPE_GAP = 190"
definition PIPE_MIN_TOP :: int where "PIPE_MIN_TOP = 90"
definition PIPE_SPEED_BASE :: real where "PIPE_SPEED_BASE = 180"
definition PIPE_SPAWN_INTERVAL :: real where "PIPE_SPAWN_INTERVAL = 16 / 10"

definition POWERUP_TYPES :: "string list" where
  "POWERUP_TYPES = [''shield'', ''slow'', ''score'']"
definition POWERUP_RADIUS :: int where "POWERUP_RADIUS = 12"
definition POWERUP_SPAWN_CHANCE :: real where "POWERUP_SPAWN_CHANCE = 12 / 100"
definition POWERUP_DURATION :: real where "POWERUP_DURATION = 4"

definition START_LIVES :: int where "START_LIVES = 3"
definition INVULNERABILITY_AFTER_HIT :: real where "INVULNERABILITY_AFTER_HIT = 16 / 10"

type_synonym color = "int \<times> int \<times> int"

definition PIPE_PALETTE :: "color list" where
  "PIPE_PALETTE = [(239, 71, 111), (255, 209, 102), (6, 214, 160), (17, 138, 178), (131, 56, 236)]"

definition POWERUP_COLORS :: "string \<rightharpoonup> color" where
  "POWERUP_COLORS = [''shield'' \<mapsto> (255, 215, 0), ''slow'' \<mapsto> (102, 204, 255),
     ''score'' \<mapsto> (255, 102, 178)]"

subsection \<open>Helper functions\<close>

text \<open>\<^verbatim>\<open>clamp(v, a, b)\<close> is \<^verbatim>\<open>max(a, min(b, v))\<close>.\<close>

definition clamp :: "real \<Rightarrow> real \<Rightarrow> real \<Rightarrow> real" where
  "clamp v a b = max a (min b v)"

text \<open>Python's \<^verbatim>\<open>int(x)\<close> on a float truncates towards zero.\<close>

definition py_trunc :: "real \<Rightarrow> int" where
  "py_trunc r = (if 0 \<le> r then \<lfloor>r\<rfloor> else \<lceil>r\<rceil>)"

subsection \<open>The high-score file\<close>

text \<open>
  The file \<^verbatim>\<open>HIGH_SCORE_FILE\<close> is the only persistent data. Its state is the text it
  holds, or \<open>None\<close> when it cannot be opened for reading (it is missing or unreadable).
  The exceptions that matter are values of \<open>error\<close>; \<open>SystemExit\<close> is what
  \<^verbatim>\<open>sys.exit()\<close> raises, and it is no subclass of \<^verbatim>\<open>Exception\<close>.
\<close>

type_synonym disk = "string option"

datatype error = OSError | ValueError | SystemExit

text \<open>
  The text forms of integers, for the ASCII characters: \<^verbatim>\<open>str(n)\<close> is the decimal
  numeral, with a minus sign for a negative number; \<^verbatim>\<open>int(s)\<close> accepts surrounding
  white space, one optional sign, and decimal digits with single underscores between
  digits, and raises \<^verbatim>\<open>ValueError\<close> on anything else.
\<close>

definition digit_char :: "nat \<Rightarrow> char" where
  "digit_char d = char_of (48 + d)"

definition is_digit :: "char \<Rightarrow> bool" where
  "is_digit c = (48 \<le> (of_char c :: nat) \<and> (of_char c :: nat) \<le> 57)"

definition digit_of :: "char \<Rightarrow> nat" where
  "digit_of c = of_char c - 48"

fun str_nat :: "nat \<Rightarrow> string" where
  "str_nat n = (if n < 10 then [digit_char n] else str_nat (n div 10) @ [digit_char (n mod 10)])"

definition py_str :: "int \<Rightarrow> string" where
  "py_str i = (if i < 0 then CHR ''-'' # str_nat (nat (- i)) else str_nat (nat i))"

definition is_space :: "char \<Rightarrow> bool" where
  "is_space c = ((of_char c :: nat) \<in> {9, 10, 11, 12, 13, 28, 29, 30, 31, 32})"

definition strip :: "string \<Rightarrow> string" where
  "strip s = rev (dropWhile is_space (rev (dropWhile is_space s)))"

fun int_digits :: "nat \<Rightarrow> string \<Rightarrow> nat option" where
  "int_digits acc [] = Some acc"
| "int_digits acc (c # cs) =
     (if is_digit c then int_digits (10 * acc + digit_of c) cs
      else if c = CHR ''_'' then
        (case cs of
           [] \<Rightarrow> None
         | d # ds \<Rightarrow> if is_digit d then int_digits (10 * acc + digit_of d) ds else None)
      else None)"

definition int_unsigned :: "string \<Rightarrow> nat option" where
  "int_unsigned s =
     (case s of
        [] \<Rightarrow> None
      | c # cs \<Rightarrow> if is_digit c then int_digits (digit_of c) cs else None)"

definition py_int :: "string \<Rightarrow> error + int" where
  "py_int s =
     (let t = strip s;
          r = (case t of
                 [] \<Rightarrow> None
               | c # cs \<Rightarrow>
                   if c = CHR ''-'' then map_option (\<lambda>n. - int n) (int_unsigned cs)
                   else if c = CHR ''+'' then map_option int (int_unsigned cs)
                   else map_option int (int_unsigned t))
      in case r of None \<Rightarrow> Inl ValueError | Some i \<Rightarrow> Inr i)"

text \<open>
  The body of the \<^verbatim>\<open>try\<close> block of \<^verbatim>\<open>load_highscore\<close>: \<^verbatim>\<open>open\<close> raises when the file
  cannot be read; an empty text (after \<^verbatim>\<open>strip\<close>) is replaced by the integer 0 by
  \<^verbatim>\<open>or 0\<close>; otherwise \<^verbatim>\<open>int\<close> parses the text or raises.
\<close>

definition load_highscore_try :: "disk \<Rightarrow> error + int" where
  "load_highscore_try d =
     (case d of
        None \<Rightarrow> Inl OSError
      | Some content \<Rightarrow> (let s = strip content in if s = [] then Inr 0 else py_int s))"

text \<open>\<^verbatim>\<open>except Exception: return 0\<close> turns every error of the body into the result 0.\<close>

definition load_highscore :: "disk \<Rightarrow> int" where
  "load_highscore d = (case load_highscore_try d of Inl e \<Rightarrow> 0 | Inr n \<Rightarrow> n)"

text \<open>
  What an attempt to write the file does is decided outside the program: it succeeds, or
  \<^verbatim>\<open>open(..., "w")\<close> raises and the file stays as it was, or \<^verbatim>\<open>open\<close> has truncated the
  file and \<^verbatim>\<open>write\<close> raises.
\<close>

datatype write_outcome = WriteOk | OpenFails | WriteFails

definition save_highscore_try :: "write_outcome \<Rightarrow> int \<Rightarrow> disk \<Rightarrow> (error + unit) \<times> disk" where
  "save_highscore_try w score d =
     (case w of
        OpenFails \<Rightarrow> (Inl OSError, d)
      | WriteFails \<Rightarrow> (Inl OSError, Some [])
      | WriteOk \<Rightarrow> (Inr (), Some (py_str score)))"

text \<open>\<^verbatim>\<open>except Exception: pass\<close>: the error is dropped, the file stays as the body left it.\<close>

definition save_highscore :: "write_outcome \<Rightarrow> int \<Rightarrow> disk \<Rightarrow> disk" where
  "save_highscore w score d =
     (case save_highscore_try w score d of (Inl e, d') \<Rightarrow> d' | (Inr u, d') \<Rightarrow> d')"

subsection \<open>The environment\<close>

text \<open>
  The program reads the random generator of module \<^verbatim>\<open>random\<close> and the clock
  \<^verbatim>\<open>time.time()\<close>, and it writes the high-score file. What these calls answer is fixed
  by an environment: the answer to the \<open>k\<close>-th call made to the outside world. The game
  state counts the calls made so far (field \<open>calls\<close> below), so every call reads an
  answer of its own.
  \<^item> \<open>rand_float k\<close>: the result of \<^verbatim>\<open>random.random()\<close>;
  \<^item> \<open>rand_nat k\<close>: the raw integer from which \<^verbatim>\<open>randint\<close> and \<^verbatim>\<open>choice\<close> take a number
    below their bound;
  \<^item> \<open>time_at k\<close>: the reading of \<^verbatim>\<open>time.time()\<close>;
  \<^item> \<open>write_at k\<close>: the outcome of an attempt to write the file.
\<close>

record env =
  rand_float :: "nat \<Rightarrow> real"
  rand_nat :: "nat \<Rightarrow> nat"
  time_at :: "nat \<Rightarrow> real"
  write_at :: "nat \<Rightarrow> write_outcome"

text \<open>\<^verbatim>\<open>random.uniform(a, b)\<close> is \<^verbatim>\<open>a + (b - a) * random()\<close>.\<close>

definition uniform :: "env \<Rightarrow> nat \<Rightarrow> real \<Rightarrow> real \<Rightarrow> real" where
  "uniform e k a b = a + (b - a) * rand_float e k"

text \<open>
  \<^verbatim>\<open>random.randint(a, b)\<close> is \<open>a\<close> plus a number below \<open>b - a + 1\<close>. Every call of the
  program passes constant bounds with \<open>a \<le> b\<close>.
\<close>

definition randint :: "env \<Rightarrow> nat \<Rightarrow> int \<Rightarrow> int \<Rightarrow> int" where
  "randint e k a b = a + int (rand_nat e k mod nat (b - a + 1))"

text \<open>
  \<^verbatim>\<open>random.choice(seq)\<close> is the element at a number below \<^verbatim>\<open>len(seq)\<close>. Both calls of
  the program pass a constant list that is not empty.
\<close>

definition choice :: "env \<Rightarrow> nat \<Rightarrow> 'a list \<Rightarrow> 'a" where
  "choice e k xs = xs ! (rand_nat e k mod length xs)"

subsection \<open>Game objects\<close>

record bird =
  bird_x :: real
  bird_y :: real
  vel :: real
  bird_radius :: int
  alive :: bool
  flap_phase :: real

text \<open>\<^verbatim>\<open>Bird.__init__(x, y)\<close>.\<close>

definition Bird :: "int \<Rightarrow> int \<Rightarrow> bird" where
  "Bird x y =
     \<lparr>bird_x = real_of_int x, bird_y = real_of_int y, vel = 0, bird_radius = BIRD_RADIUS,
      alive = True, flap_phase = 0\<rparr>"

text \<open>\<^verbatim>\<open>Bird.flap\<close>.\<close>

definition flap :: "bird \<Rightarrow> bird" where
  "flap b = b\<lparr>vel := JUMP_VELOCITY, flap_phase := 4 / 10\<rparr>"

text \<open>\<^verbatim>\<open>Bird.update(dt)\<close>: the position is advanced with the velocity already updated.\<close>

definition Bird_update :: "real \<Rightarrow> bird \<Rightarrow> bird" where
  "Bird_update dt b =
     (let v1 = vel b + GRAVITY * dt;
          v2 = clamp v1 (- 1000) MAX_FALL_SPEED
      in b\<lparr>vel := v2, bird_y := bird_y b + v2 * dt,
            flap_phase := max 0 (flap_phase b - dt * 3)\<rparr>)"

text \<open>\<^verbatim>\<open>Bird.get_circle\<close>.\<close>

definition get_circle :: "bird \<Rightarrow> real \<times> real \<times> int" where
  "get_circle b = (bird_x b, bird_y b, bird_radius b)"

record pipe =
  pipe_x :: real
  pipe_top :: int
  pipe_gap :: int
  pipe_width :: int
  pipe_color :: color
  passed :: bool

text \<open>\<^verbatim>\<open>Pipe.__init__(x, top_height, gap, color)\<close>.\<close>

definition Pipe :: "int \<Rightarrow> int \<Rightarrow> int \<Rightarrow> color \<Rightarrow> pipe" where
  "Pipe x top_height gap col =
     \<lparr>pipe_x = real_of_int x, pipe_top = top_height, pipe_gap = gap, pipe_width = PIPE_WIDTH,
      pipe_color = col, passed = False\<rparr>"

text \<open>\<^verbatim>\<open>Pipe.update(dt, speed)\<close>.\<close>

definition pipe_update :: "real \<Rightarrow> real \<Rightarrow> pipe \<Rightarrow> pipe" where
  "pipe_update dt speed p = p\<lparr>pipe_x := pipe_x p - speed * dt\<rparr>"

text \<open>
  A \<^verbatim>\<open>pygame.Rect(left, top, width, height)\<close> with its derived attributes
  \<^verbatim>\<open>right = left + width\<close> and \<^verbatim>\<open>bottom = top + height\<close>.
\<close>

record rect =
  rect_left :: int
  rect_top :: int
  rect_w :: int
  rect_h :: int

definition rect_right :: "rect \<Rightarrow> int" where
  "rect_right r = rect_left r + rect_w r"

definition rect_bottom :: "rect \<Rightarrow> int" where
  "rect_bottom r = rect_top r + rect_h r"

text \<open>\<^verbatim>\<open>circle_rect_collision(circle_pos, circle_rad, rect)\<close>.\<close>

definition circle_rect_collision :: "real \<times> real \<Rightarrow> int \<Rightarrow> rect \<Rightarrow> bool" where
  "circle_rect_collision circle_pos circle_rad r =
     (let cx = fst circle_pos; cy = snd circle_pos;
          closest_x = clamp cx (real_of_int (rect_left r)) (real_of_int (rect_right r));
          closest_y = clamp cy (real_of_int (rect_top r)) (real_of_int (rect_bottom r));
          dx = cx - closest_x;
          dy = cy - closest_y
      in dx * dx + dy * dy \<le> real_of_int (circle_rad * circle_rad))"

text \<open>\<^verbatim>\<open>Pipe.collides_with_circle(circle)\<close>.\<close>

definition pipe_collides_with_circle :: "pipe \<Rightarrow> real \<times> real \<times> int \<Rightarrow> bool" where
  "pipe_collides_with_circle p circle =
     (let cx = fst circle; cy = fst (snd circle); cr = snd (snd circle);
          top_rect = \<lparr>rect_left = py_trunc (pipe_x p), rect_top = 0, rect_w = pipe_width p,
                      rect_h = pipe_top p\<rparr>;
          bottom_rect = \<lparr>rect_left = py_trunc (pipe_x p), rect_top = pipe_top p + pipe_gap p,
                         rect_w = pipe_width p,
                         rect_h = HEIGHT - (pipe_top p + pipe_gap p)\<rparr>
      in circle_rect_collision (cx, cy) cr top_rect \<or>
         circle_rect_collision (cx, cy) cr bottom_rect)"

text \<open>\<^verbatim>\<open>Pipe.off_screen\<close>.\<close>

definition off_screen :: "pipe \<Rightarrow> bool" where
  "off_screen p = (pipe_x p + real_of_int (pipe_width p) < - 40)"

record powerup =
  pu_x :: real
  pu_y :: real
  pu_type :: string
  pu_radius :: int
  collected :: bool

text \<open>\<^verbatim>\<open>PowerUp.__init__(x, y, ptype)\<close>.\<close>

definition PowerUp :: "real \<Rightarrow> real \<Rightarrow> string \<Rightarrow> powerup" where
  "PowerUp x y ptype =
     \<lparr>pu_x = x, pu_y = y, pu_type = ptype, pu_radius = POWERUP_RADIUS, collected = False\<rparr>"

text \<open>
  \<^verbatim>\<open>PowerUp.update(dt, speed)\<close>; \<open>now\<close> is the reading of \<^verbatim>\<open>time.time()\<close>. The bobbing
  uses the position already moved.
\<close>

definition powerup_update :: "real \<Rightarrow> real \<Rightarrow> real \<Rightarrow> powerup \<Rightarrow> powerup" where
  "powerup_update now dt speed pu =
     (let x1 = pu_x pu - speed * dt
      in pu\<lparr>pu_x := x1, pu_y := pu_y pu + sin (now * 4 + x1) * 8 * dt\<rparr>)"

text \<open>\<^verbatim>\<open>PowerUp.collides_with_circle(circle)\<close>.\<close>

definition powerup_collides_with_circle :: "powerup \<Rightarrow> real \<times> real \<times> int \<Rightarrow> bool" where
  "powerup_collides_with_circle pu circle =
     (let cx = fst circle; cy = fst (snd circle); cr = snd (snd circle);
          dx = cx - pu_x pu;
          dy = cy - pu_y pu
      in dx * dx + dy * dy \<le> real_of_int ((cr + pu_radius pu) ^ 2))"

record particle =
  part_x :: real
  part_y :: real
  part_vx :: real
  part_vy :: real
  part_color :: color
  life :: real
  max_life :: real

text \<open>\<^verbatim>\<open>Particle.__init__(x, y, color, vx, vy, life)\<close>.\<close>

definition Particle :: "real \<Rightarrow> real \<Rightarrow> color \<Rightarrow> real \<Rightarrow> real \<Rightarrow> real \<Rightarrow> particle" where
  "Particle x y col vx vy lf =
     \<lparr>part_x = x, part_y = y, part_vx = vx, part_vy = vy, part_color = col, life = lf,
      max_life = lf\<rparr>"

text \<open>\<^verbatim>\<open>Particle.update(dt)\<close>.\<close>

definition particle_update :: "real \<Rightarrow> particle \<Rightarrow> particle" where
  "particle_update dt p =
     (let vy1 = part_vy p + 300 * dt
      in p\<lparr>part_vy := vy1, part_x := part_x p + part_vx p * dt,
            part_y := part_y p + vy1 * dt, life := life p - dt\<rparr>)"

text \<open>A cloud of the background: the dictionary with keys x, y, r and speed.\<close>

record cloud =
  cloud_x :: real
  cloud_y :: int
  cloud_r :: int
  cloud_speed :: real

subsection \<open>The game\<close>

datatype game_state = MENU | PLAYING | PAUSED | GAME_OVER

text \<open>
  The attributes of a \<^verbatim>\<open>Game\<close> object that the simulation reads or writes (the screen,
  the clock and the fonts serve drawing only). The last two fields are the world outside
  the object: the high-score file and the number of calls made to the environment.
  The dictionary \<^verbatim>\<open>powerup_timers\<close> is a map; the order of its keys matters to drawing only.
\<close>

record game =
  bird :: bird
  pipes :: "pipe list"
  powerups :: "powerup list"
  score :: int
  lives :: int
  invulnerable_timer :: real
  powerup_timers :: "string \<rightharpoonup> real"
  pipe_speed :: real
  pipe_spawn_interval :: real
  time_since_last_pipe :: real
  state :: game_state
  menu_select :: int
  last_time :: real
  high_score :: int
  clouds :: "cloud list"
  particles :: "particle list"
  sound_on :: bool
  disk :: disk
  calls :: nat

text \<open>\<^verbatim>\<open>Game.reset\<close>: the high score, the clouds, the particles and the sound flag stay.\<close>

definition reset :: "env \<Rightarrow> game \<Rightarrow> game" where
  "reset e g =
     g\<lparr>bird := Bird BIRD_X (HEIGHT div 2),
       pipes := [],
       powerups := [],
       score := 0,
       lives := START_LIVES,
       invulnerable_timer := 0,
       powerup_timers := Map.empty,
       pipe_speed := PIPE_SPEED_BASE,
       pipe_spawn_interval := PIPE_SPAWN_INTERVAL,
       time_since_last_pipe := 0,
       state := MENU,
       menu_select := 0,
       last_time := time_at e (calls g),
       calls := calls g + 1\<rparr>"

text \<open>One cloud of \<^verbatim>\<open>Game.__init__\<close>: four draws, starting at call \<open>k\<close>.\<close>

definition new_cloud :: "env \<Rightarrow> nat \<Rightarrow> cloud" where
  "new_cloud e k =
     \<lparr>cloud_x = real_of_int (randint e k 0 WIDTH), cloud_y = randint e (k + 1) 20 200,
      cloud_r = randint e (k + 2) 20 45, cloud_speed = uniform e (k + 3) 10 40\<rparr>"

text \<open>
  \<^verbatim>\<open>Game.__init__\<close>, started on the file state \<open>d\<close>: the high score is loaded, \<^verbatim>\<open>reset\<close>
  sets the session fields (the values given to them in \<open>g0\<close> are overwritten), then the
  ten clouds, the particle list and the sound flag are set.
\<close>

definition Game_init :: "env \<Rightarrow> disk \<Rightarrow> game" where
  "Game_init e d =
     (let g0 = \<lparr>bird = Bird BIRD_X (HEIGHT div 2), pipes = [], powerups = [], score = 0,
                lives = 0, invulnerable_timer = 0, powerup_timers = Map.empty, pipe_speed = 0,
                pipe_spawn_interval = 0, time_since_last_pipe = 0, state = MENU,
                menu_select = 0, last_time = 0, high_score = load_highscore d, clouds = [],
                particles = [], sound_on = True, disk = d, calls = 0\<rparr>;
          g1 = reset e g0
      in g1\<lparr>clouds := map (\<lambda>i. new_cloud e (calls g1 + 4 * i)) [0..<10],
            particles := [],
            sound_on := True,
            calls := calls g1 + 40\<rparr>)"

subsection \<open>Input\<close>

datatype key = K_SPACE | K_q | K_p | K_m | K_r | K_other

datatype event = QUIT | KEYDOWN key | OTHER_EVENT

text \<open>
  The body of the loop of \<^verbatim>\<open>Game.handle_input\<close> for one event. \<^verbatim>\<open>self.quit()\<close> ends in
  \<^verbatim>\<open>sys.exit()\<close>, which raises \<open>SystemExit\<close>.
\<close>

fun handle_event :: "env \<Rightarrow> event \<Rightarrow> game \<Rightarrow> error + game" where
  "handle_event e QUIT g = Inl SystemExit"
| "handle_event e (KEYDOWN k) g =
     (if state g = MENU then
        (if k = K_SPACE then Inr (g\<lparr>state := PLAYING, time_since_last_pipe := 0\<rparr>)
         else if k = K_q then Inl SystemExit
         else Inr g)
      else if state g = PLAYING then
        (if k = K_SPACE then Inr (g\<lparr>bird := flap (bird g)\<rparr>)
         else if k = K_p then Inr (g\<lparr>state := PAUSED\<rparr>)
         else if k = K_m then Inr (g\<lparr>sound_on := \<not> sound_on g\<rparr>)
         else Inr g)
      else if state g = PAUSED then
        (if k = K_p then Inr (g\<lparr>state := PLAYING\<rparr>) else Inr g)
      else if state g = GAME_OVER then
        (if k = K_r then Inr ((reset e g)\<lparr>state := PLAYING\<rparr>)
         else if k = K_q then Inl SystemExit
         else Inr g)
      else Inr g)"
| "handle_event e OTHER_EVENT g = Inr g"

text \<open>\<^verbatim>\<open>Game.handle_input\<close> on the events that \<^verbatim>\<open>pygame.event.get()\<close> returned.\<close>

fun handle_input :: "env \<Rightarrow> event list \<Rightarrow> game \<Rightarrow> error + game" where
  "handle_input e [] g = Inr g"
| "handle_input e (ev # evs) g =
     (case handle_event e ev g of Inl err \<Rightarrow> Inl err | Inr g1 \<Rightarrow> handle_input e evs g1)"

subsection \<open>Game logic\<close>

text \<open>\<^verbatim>\<open>Game.spawn_pipe\<close>: three draws, and three more when a power-up is made.\<close>

definition spawn_pipe :: "env \<Rightarrow> game \<Rightarrow> game" where
  "spawn_pipe e g =
     (let k = calls g;
          top_h = randint e k PIPE_MIN_TOP (HEIGHT - PIPE_GAP - 140);
          col = choice e (k + 1) PIPE_PALETTE;
          p = Pipe (WIDTH + 40) top_h PIPE_GAP col;
          g1 = g\<lparr>pipes := pipes g @ [p], calls := k + 3\<rparr>
      in if rand_float e (k + 2) < POWERUP_SPAWN_CHANCE then
           (let px = pipe_x p + real_of_int (pipe_width p div 2)
                       + real_of_int (randint e (k + 3) 20 60);
                py = real_of_int top_h
                       + real_of_int (pipe_gap p) * uniform e (k + 4) (25 / 100) (75 / 100);
                ptype = choice e (k + 5) POWERUP_TYPES
            in g1\<lparr>powerups := powerups g1 @ [PowerUp px py ptype], calls := k + 6\<rparr>)
         else g1)"

text \<open>\<^verbatim>\<open>Game.apply_powerup\<close>.\<close>

definition apply_powerup :: "string \<Rightarrow> game \<Rightarrow> game" where
  "apply_powerup ptype g =
     (if ptype = ''shield'' then
        g\<lparr>powerup_timers := (powerup_timers g)(''shield'' \<mapsto> POWERUP_DURATION)\<rparr>
      else if ptype = ''slow'' then
        g\<lparr>powerup_timers := (powerup_timers g)(''slow'' \<mapsto> POWERUP_DURATION)\<rparr>
      else if ptype = ''score'' then
        g\<lparr>powerup_timers := (powerup_timers g)(''score'' \<mapsto> POWERUP_DURATION)\<rparr>
      else g)"

text \<open>\<^verbatim>\<open>Game.spawn_particles(x, y, color, count)\<close>: three draws for each particle.\<close>

fun spawn_particles :: "env \<Rightarrow> real \<Rightarrow> real \<Rightarrow> color \<Rightarrow> nat \<Rightarrow> game \<Rightarrow> game" where
  "spawn_particles e x y col 0 g = g"
| "spawn_particles e x y col (Suc n) g =
     (let k = calls g;
          vx = uniform e k (- 220) 220;
          vy = uniform e (k + 1) (- 200) (- 40);
          lf = uniform e (k + 2) (5 / 10) (12 / 10)
      in spawn_particles e x y col n
           (g\<lparr>particles := particles g @ [Particle x y col vx vy lf], calls := k + 3\<rparr>))"

text \<open>\<^verbatim>\<open>self.powerup_timers.get(k, 0.0)\<close>.\<close>

definition timer_get :: "(string \<rightharpoonup> real) \<Rightarrow> string \<Rightarrow> real" where
  "timer_get m k = (case m k of None \<Rightarrow> 0 | Some t \<Rightarrow> t)"

text \<open>
  The block that follows each loss of a life in \<^verbatim>\<open>Game.handle_collisions\<close> (it stands
  there twice, after the pipe hit and after the ground hit): at no lives left the game
  is over, and a score above the high score is stored and written to the file.
\<close>

definition game_over_check :: "env \<Rightarrow> game \<Rightarrow> game" where
  "game_over_check e g =
     (if lives g \<le> 0 then
        (let g1 = g\<lparr>state := GAME_OVER\<rparr>
         in if score g1 > high_score g1 then
              (let g2 = g1\<lparr>high_score := score g1\<rparr>
               in g2\<lparr>disk := save_highscore (write_at e (calls g2)) (high_score g2) (disk g2),
                     calls := calls g2 + 1\<rparr>)
            else g1)
      else g)"

text \<open>What a pipe hit does (the body of the \<^verbatim>\<open>if\<close> in the loop over the pipes).\<close>

definition hit_pipe :: "env \<Rightarrow> game \<Rightarrow> game" where
  "hit_pipe e g =
     (let g1 = g\<lparr>lives := lives g - 1, invulnerable_timer := INVULNERABILITY_AFTER_HIT\<rparr>;
          g2 = g1\<lparr>bird := (bird g1)\<lparr>vel := - 160\<rparr>\<rparr>;
          g3 = spawn_particles e (bird_x (bird g2)) (bird_y (bird g2)) (255, 80, 80) 30 g2
      in game_over_check e g3)"

text \<open>The loop over \<^verbatim>\<open>self.pipes\<close>: the first pipe that collides is a hit, then \<^verbatim>\<open>break\<close>.\<close>

fun pipe_collisions :: "env \<Rightarrow> real \<times> real \<times> int \<Rightarrow> pipe list \<Rightarrow> game \<Rightarrow> game" where
  "pipe_collisions e circ [] g = g"
| "pipe_collisions e circ (p # ps) g =
     (if pipe_collides_with_circle p circ then hit_pipe e g
      else pipe_collisions e circ ps g)"

text \<open>What a ground hit does.\<close>

definition hit_ground :: "env \<Rightarrow> game \<Rightarrow> game" where
  "hit_ground e g =
     (let g1 = g\<lparr>lives := lives g - 1, invulnerable_timer := INVULNERABILITY_AFTER_HIT\<rparr>;
          g2 = spawn_particles e (bird_x (bird g1)) (bird_y (bird g1)) (255, 80, 80) 18 g1;
          g3 = g2\<lparr>bird := (bird g2)\<lparr>vel := - 120\<rparr>\<rparr>
      in game_over_check e g3)"

text \<open>
  The loop over a copy of \<^verbatim>\<open>self.powerups\<close>. The objects of the list are distinct, so
  \<^verbatim>\<open>remove\<close> takes out the one at hand: the loop goes through the copy and the list is
  built again from the power-ups that stay, in their order.
\<close>

fun collect_powerups :: "env \<Rightarrow> real \<times> real \<times> int \<Rightarrow> powerup list \<Rightarrow> game \<Rightarrow> game" where
  "collect_powerups e circ [] g = g"
| "collect_powerups e circ (pu # pus) g =
     (if powerup_collides_with_circle pu circ then
        (let g1 = apply_powerup (pu_type pu) g;
             col = (case POWERUP_COLORS (pu_type pu) of None \<Rightarrow> (255, 255, 255) | Some c \<Rightarrow> c);
             g2 = spawn_particles e (bird_x (bird g1)) (bird_y (bird g1)) col 18 g1;
             g3 = (if pu_type pu = ''score'' then g2\<lparr>score := score g2 + 2\<rparr> else g2)
         in collect_powerups e circ pus g3)
      else collect_powerups e circ pus (g\<lparr>powerups := powerups g @ [pu]\<rparr>))"

text \<open>\<^verbatim>\<open>Game.handle_collisions\<close>.\<close>

definition handle_collisions :: "env \<Rightarrow> game \<Rightarrow> game" where
  "handle_collisions e g =
     (let circ = get_circle (bird g);
          g1 = collect_powerups e circ (powerups g) (g\<lparr>powerups := []\<rparr>);
          g2 = (if invulnerable_timer g1 \<le> 0 \<and> timer_get (powerup_timers g1) ''shield'' \<le> 0
                then pipe_collisions e circ (pipes g1) g1 else g1)
      in if bird_y (bird g2) + real_of_int (bird_radius (bird g2)) \<ge> real_of_int (HEIGHT - 30)
         then
           (if invulnerable_timer g2 \<le> 0 \<and> timer_get (powerup_timers g2) ''shield'' \<le> 0
            then hit_ground e g2 else g2)
         else g2)"

subsection \<open>The update of one frame\<close>

text \<open>
  The local variables \<^verbatim>\<open>difficulty_factor\<close>, \<^verbatim>\<open>speed\<close> and \<^verbatim>\<open>spawn_interval\<close>. They read
  the score, the timers and the two scaling fields, which the spawning of a pipe does not
  change.
\<close>

definition difficulty_factor :: "game \<Rightarrow> real" where
  "difficulty_factor g = 1 + ln (real_of_int (1 + max 0 (score g))) * (5 / 100)"

definition speed :: "game \<Rightarrow> real" where
  "speed g =
     pipe_speed g * difficulty_factor g
       * (if timer_get (powerup_timers g) ''slow'' > 0 then 6 / 10 else 1)"

definition spawn_interval :: "game \<Rightarrow> real" where
  "spawn_interval g = max 1 (pipe_spawn_interval g / difficulty_factor g)"

text \<open>The movement of one cloud in a state other than PLAYING.\<close>

definition move_cloud :: "real \<Rightarrow> cloud \<Rightarrow> cloud" where
  "move_cloud dt c =
     (let c1 = c\<lparr>cloud_x := cloud_x c - cloud_speed c * dt * (25 / 100)\<rparr>
      in if cloud_x c1 < - 80 then c1\<lparr>cloud_x := real_of_int (WIDTH + 60)\<rparr> else c1)"

text \<open>
  The body of the loop over a copy of \<^verbatim>\<open>self.pipes\<close> for one pipe: move it, count it
  once it is left of the bird, drop it when it is off the screen. As for the power-ups,
  the list is built again from the pipes that stay.
\<close>

definition pipe_body :: "real \<Rightarrow> real \<Rightarrow> env \<Rightarrow> pipe \<Rightarrow> game \<Rightarrow> game" where
  "pipe_body dt sp e p g =
     (let p1 = pipe_update dt sp p;
          counted = (\<not> passed p1 \<and> pipe_x p1 + real_of_int (pipe_width p1) < bird_x (bird g));
          p2 = (if counted then p1\<lparr>passed := True\<rparr> else p1);
          g1 = (if counted
                then spawn_particles e (bird_x (bird g)) (bird_y (bird g)) (180, 255, 200) 8
                       (g\<lparr>score := score g + 1\<rparr>)
                else g)
      in if off_screen p2 then g1 else g1\<lparr>pipes := pipes g1 @ [p2]\<rparr>)"

fun pipes_loop :: "real \<Rightarrow> real \<Rightarrow> env \<Rightarrow> pipe list \<Rightarrow> game \<Rightarrow> game" where
  "pipes_loop dt sp e [] g = g"
| "pipes_loop dt sp e (p # ps) g = pipes_loop dt sp e ps (pipe_body dt sp e p g)"

definition update_pipes :: "real \<Rightarrow> real \<Rightarrow> env \<Rightarrow> game \<Rightarrow> game" where
  "update_pipes dt sp e g = pipes_loop dt sp e (pipes g) (g\<lparr>pipes := []\<rparr>)"

text \<open>The loop over a copy of \<^verbatim>\<open>self.powerups\<close>; each update reads the clock once.\<close>

fun powerups_loop :: "real \<Rightarrow> real \<Rightarrow> env \<Rightarrow> powerup list \<Rightarrow> game \<Rightarrow> game" where
  "powerups_loop dt sp e [] g = g"
| "powerups_loop dt sp e (pu # pus) g =
     (let pu1 = powerup_update (time_at e (calls g)) dt sp pu;
          g1 = g\<lparr>calls := calls g + 1\<rparr>
      in powerups_loop dt sp e pus
           (if pu_x pu1 < - 40 then g1 else g1\<lparr>powerups := powerups g1 @ [pu1]\<rparr>))"

definition update_powerups :: "real \<Rightarrow> real \<Rightarrow> env \<Rightarrow> game \<Rightarrow> game" where
  "update_powerups dt sp e g = powerups_loop dt sp e (powerups g) (g\<lparr>powerups := []\<rparr>)"

text \<open>The particles are updated, and those with no life left are removed.\<close>

definition update_particles :: "real \<Rightarrow> game \<Rightarrow> game" where
  "update_particles dt g =
     g\<lparr>particles := filter (\<lambda>p. \<not> life p \<le> 0) (map (particle_update dt) (particles g))\<rparr>"

text \<open>Every timer of the dictionary goes down by \<open>dt\<close>; an entry at or below 0 is deleted.\<close>

definition tick_timers :: "real \<Rightarrow> (string \<rightharpoonup> real) \<Rightarrow> (string \<rightharpoonup> real)" where
  "tick_timers dt m =
     (\<lambda>k. case m k of None \<Rightarrow> None | Some t \<Rightarrow> if t - dt \<le> 0 then None else Some (t - dt))"

text \<open>The part of \<^verbatim>\<open>Game.update\<close> that adds to the timer and spawns a pipe when it is due.\<close>

definition spawn_stage :: "real \<Rightarrow> env \<Rightarrow> game \<Rightarrow> game" where
  "spawn_stage dt e g =
     (let g1 = g\<lparr>time_since_last_pipe := time_since_last_pipe g + dt\<rparr>
      in if time_since_last_pipe g1 \<ge> spawn_interval g1
         then (spawn_pipe e g1)\<lparr>time_since_last_pipe := 0\<rparr> else g1)"

text \<open>
  The part of \<^verbatim>\<open>Game.update\<close> for the invulnerability timer and the power-up timers.
\<close>

definition update_timers :: "real \<Rightarrow> game \<Rightarrow> game" where
  "update_timers dt g =
     (let g1 = (if invulnerable_timer g > 0
                then g\<lparr>invulnerable_timer := invulnerable_timer g - dt\<rparr> else g)
      in g1\<lparr>powerup_timers := tick_timers dt (powerup_timers g1)\<rparr>)"

text \<open>The last part of \<^verbatim>\<open>Game.update\<close>: the bird is kept from going too high.\<close>

definition keep_below_top :: "game \<Rightarrow> game" where
  "keep_below_top g =
     (if bird_y (bird g) < 20 then g\<lparr>bird := (bird g)\<lparr>bird_y := 20, vel := 0\<rparr>\<rparr> else g)"

text \<open>\<^verbatim>\<open>Game.update(dt)\<close>.\<close>

definition update :: "real \<Rightarrow> env \<Rightarrow> game \<Rightarrow> game" where
  "update dt e g =
     (if state g \<noteq> PLAYING then g\<lparr>clouds := map (move_cloud dt) (clouds g)\<rparr>
      else
        (let sp = speed g;
             g1 = spawn_stage dt e g;
             g2 = g1\<lparr>bird := Bird_update dt (bird g1)\<rparr>;
             g3 = update_pipes dt sp e g2;
             g4 = update_powerups dt sp e g3;
             g5 = update_particles dt g4;
             g6 = update_timers dt g5;
             g7 = handle_collisions e g6
         in keep_below_top g7))"

text \<open>
  One turn of the loop of \<^verbatim>\<open>Game.run\<close>: \<^verbatim>\<open>clock.tick(FPS)\<close> returns the milliseconds
  \<open>ms\<close> since the last frame, the events are handled, the game is updated.
\<close>

definition run_step :: "env \<Rightarrow> nat \<Rightarrow> event list \<Rightarrow> game \<Rightarrow> error + game" where
  "run_step e ms evs g =
     (let dt = real ms / 1000
      in case handle_input e evs g of
           Inl err \<Rightarrow> Inl err
         | Inr g1 \<Rightarrow> Inr (update dt e g1))"

text \<open>
  The game states that the program can be in at the start of a turn of the loop of
  \<^verbatim>\<open>Game.run\<close>: the state that \<^verbatim>\<open>Game.__init__\<close> builds, and every state that a turn of the
  loop ends in without leaving the program.
\<close>

inductive reachable :: "game \<Rightarrow> bool" where
  init: "reachable (Game_init e d)"
| step: "reachable g \<Longrightarrow> run_step e ms evs g = Inr g' \<Longrightarrow> reachable g'"

subsection \<open>One pipe in the loop over the pipes\<close>

text \<open>
  What the loop body of \<^verbatim>\<open>Game.update\<close> does to one pipe, seen from the pipe: where it is
  and whether it is marked afterwards (\<open>bx\<close> is the bird's x), and whether it is counted
  in this frame.
\<close>

definition pipe_after :: "real \<Rightarrow> real \<Rightarrow> real \<Rightarrow> pipe \<Rightarrow> pipe" where
  "pipe_after dt sp bx p =
     (let p1 = pipe_update dt sp p
      in if \<not> passed p1 \<and> pipe_x p1 + real_of_int (pipe_width p1) < bx
         then p1\<lparr>passed := True\<rparr> else p1)"

definition newly_passed :: "real \<Rightarrow> real \<Rightarrow> real \<Rightarrow> pipe \<Rightarrow> bool" where
  "newly_passed dt sp bx p =
     (let p1 = pipe_update dt sp p
      in \<not> passed p1 \<and> pipe_x p1 + real_of_int (pipe_width p1) < bx)"

subsection \<open>Concrete sessions\<close>

text \<open>
  An environment whose draws and clock readings are all 0 and where every write of the
  file succeeds, and one that differs only in that the file cannot be opened for writing.
\<close>

definition env_ok :: env where
  "env_ok = \<lparr>rand_float = (\<lambda>k. 0), rand_nat = (\<lambda>k. 0), time_at = (\<lambda>k. 0),
              write_at = (\<lambda>k. WriteOk)\<rparr>"

definition env_readonly :: env where
  "env_readonly = env_ok\<lparr>write_at := (\<lambda>k. OpenFails)\<rparr>"

text \<open>A new game with no high-score file, after SPACE has been pressed in the menu.\<close>

definition game_start :: game where
  "game_start = (Game_init env_ok None)\<lparr>state := PLAYING, time_since_last_pipe := 0\<rparr>"

text \<open>
  The bird is 10 pixels above the ground line (its lower edge is below it) and the shield
  has 8 milliseconds left.
\<close>

definition game_low_shield :: game where
  "game_low_shield =
     game_start\<lparr>bird := (bird game_start)\<lparr>bird_y := 680\<rparr>,
                powerup_timers := [''shield'' \<mapsto> 1 / 125]\<rparr>"

text \<open>
  The bird is as low, one life is left, the score is 7, and the high score is 5 in memory
  and in the file.
\<close>

definition game_last_life :: game where
  "game_last_life =
     game_start\<lparr>bird := (bird game_start)\<lparr>bird_y := 680\<rparr>, lives := 1, score := 7,
                high_score := 5, disk := Some ''5''\<rparr>"

text \<open>A game that is over: no life is left.\<close>

definition game_lost :: game where
  "game_lost = game_last_life\<lparr>lives := 0, state := GAME_OVER\<rparr>"

text \<open>
  The bird is as low and inside the lower part of a pipe that spans x from 100 to 188
  (the bird is at x = 120) and has its gap from y = 200 to y = 390.
\<close>

definition game_pipe_and_ground :: game where
  "game_pipe_and_ground =
     game_start\<lparr>bird := (bird game_start)\<lparr>bird_y := 680\<rparr>,
                pipes := [(Pipe 100 200 PIPE_GAP (6, 214, 160))\<lparr>passed := True\<rparr>]\<rparr>"


section \<open>Properties\<close>

subsection \<open>Text forms of integers\<close>

declare str_nat.simps [simp del]

lemma is_digit_digit_char: "d < 10 \<Longrightarrow> is_digit (digit_char d)"
  by (simp add: is_digit_def digit_char_def)

lemma digit_of_digit_char: "d < 10 \<Longrightarrow> digit_of (digit_char d) = d"
  by (simp add: digit_of_def digit_char_def)

lemma not_space_digit: "is_digit c \<Longrightarrow> \<not> is_space c"
  by (auto simp: is_digit_def is_space_def)

lemma str_nat_digits: "c \<in> set (str_nat n) \<Longrightarrow> is_digit c"
proof (induction n rule: str_nat.induct)
  case (1 n)
  then show ?case
    by (subst (asm) (2) str_nat.simps) (auto simp: is_digit_digit_char split: if_splits)
qed

lemma str_nat_nonempty: "str_nat n \<noteq> []"
  by (subst str_nat.simps) simp

lemma int_digits_all:
  "\<forall>c\<in>set cs. is_digit c \<Longrightarrow>
     int_digits acc cs = Some (foldl (\<lambda>a c. 10 * a + digit_of c) acc cs)"
  by (induction cs arbitrary: acc) auto

lemma foldl_str_nat: "foldl (\<lambda>a c. 10 * a + digit_of c) 0 (str_nat n) = n"
proof (induction n rule: str_nat.induct)
  case (1 n)
  show ?case
  proof (cases "n < 10")
    case True
    then show ?thesis by (subst str_nat.simps) (simp add: digit_of_digit_char)
  next
    case False
    with 1 show ?thesis by (subst str_nat.simps) (simp add: digit_of_digit_char)
  qed
qed

lemma int_unsigned_str_nat: "int_unsigned (str_nat n) = Some n"
proof -
  obtain c cs where cs: "str_nat n = c # cs"
    using str_nat_nonempty [of n] by (cases "str_nat n") auto
  have d: "\<forall>x\<in>set (c # cs). is_digit x"
    using str_nat_digits [of _ n] cs by auto
  have "int_digits (digit_of c) cs = Some (foldl (\<lambda>a c. 10 * a + digit_of c) (digit_of c) cs)"
    using d by (intro int_digits_all) simp
  moreover have "foldl (\<lambda>a c. 10 * a + digit_of c) (digit_of c) cs = n"
    using foldl_str_nat [of n] by (simp add: cs)
  ultimately show ?thesis using d by (simp add: int_unsigned_def cs)
qed

lemma dropWhile_self: "s \<noteq> [] \<Longrightarrow> \<not> P (hd s) \<Longrightarrow> dropWhile P s = s"
  by (cases s) auto

lemma strip_self: "s \<noteq> [] \<Longrightarrow> \<not> is_space (hd s) \<Longrightarrow> \<not> is_space (last s) \<Longrightarrow> strip s = s"
  by (simp add: strip_def dropWhile_self hd_rev)

lemma py_str_nonempty: "py_str i \<noteq> []"
  by (simp add: py_str_def str_nat_nonempty)

lemma hd_py_str_not_space: "\<not> is_space (hd (py_str i))"
proof (cases "i < 0")
  case True
  then show ?thesis by (simp add: py_str_def is_space_def)
next
  case False
  have "hd (str_nat (nat i)) \<in> set (str_nat (nat i))"
    by (simp add: str_nat_nonempty)
  then show ?thesis
    using False by (auto simp: py_str_def dest!: str_nat_digits not_space_digit)
qed

lemma last_py_str_not_space: "\<not> is_space (last (py_str i))"
proof -
  have "last (str_nat n) \<in> set (str_nat n)" for n
    by (simp add: str_nat_nonempty)
  then have "\<not> is_space (last (str_nat n))" for n
    by (blast dest: str_nat_digits not_space_digit)
  then show ?thesis
    by (simp add: py_str_def str_nat_nonempty)
qed

lemma strip_py_str: "strip (py_str i) = py_str i"
  by (simp add: strip_self py_str_nonempty hd_py_str_not_space last_py_str_not_space)

lemma py_int_py_str: "py_int (py_str i) = Inr i"
proof (cases "i < 0")
  case True
  then show ?thesis
    using strip_py_str [of i] by (simp add: py_int_def py_str_def int_unsigned_str_nat)
next
  case False
  obtain c cs where cs: "str_nat (nat i) = c # cs"
    using str_nat_nonempty [of "nat i"] by (cases "str_nat (nat i)") auto
  have "is_digit c" using str_nat_digits [of c "nat i"] cs by simp
  then have "c \<noteq> CHR ''-''" "c \<noteq> CHR ''+''" by (auto simp: is_digit_def)
  then show ?thesis
    using False strip_py_str [of i] int_unsigned_str_nat [of "nat i"]
    by (simp add: py_int_def py_str_def cs)
qed

lemma load_save_roundtrip: "load_highscore (save_highscore WriteOk n d) = n"
  using strip_py_str [of n] py_int_py_str [of n] py_str_nonempty [of n]
  by (simp add: load_highscore_def load_highscore_try_def save_highscore_def
        save_highscore_try_def)

subsection \<open>Constants\<close>

lemmas config_defs =
  WIDTH_def HEIGHT_def BIRD_X_def BIRD_RADIUS_def GRAVITY_def JUMP_VELOCITY_def
  MAX_FALL_SPEED_def PIPE_WIDTH_def PIPE_GAP_def PIPE_MIN_TOP_def PIPE_SPEED_BASE_def
  PIPE_SPAWN_INTERVAL_def POWERUP_RADIUS_def POWERUP_SPAWN_CHANCE_def POWERUP_DURATION_def
  START_LIVES_def INVULNERABILITY_AFTER_HIT_def

subsection \<open>What each part of the update leaves alone\<close>

lemma spawn_particles_frame [simp]:
  "bird (spawn_particles e x y c n g) = bird g"
  "pipes (spawn_particles e x y c n g) = pipes g"
  "powerups (spawn_particles e x y c n g) = powerups g"
  "score (spawn_particles e x y c n g) = score g"
  "lives (spawn_particles e x y c n g) = lives g"
  "invulnerable_timer (spawn_particles e x y c n g) = invulnerable_timer g"
  "powerup_timers (spawn_particles e x y c n g) = powerup_timers g"
  "pipe_speed (spawn_particles e x y c n g) = pipe_speed g"
  "pipe_spawn_interval (spawn_particles e x y c n g) = pipe_spawn_interval g"
  "time_since_last_pipe (spawn_particles e x y c n g) = time_since_last_pipe g"
  "state (spawn_particles e x y c n g) = state g"
  "high_score (spawn_particles e x y c n g) = high_score g"
  "disk (spawn_particles e x y c n g) = disk g"
  by (induction n arbitrary: g; simp add: Let_def)+

lemma game_over_check_frame [simp]:
  "bird (game_over_check e g) = bird g"
  "pipes (game_over_check e g) = pipes g"
  "powerups (game_over_check e g) = powerups g"
  "score (game_over_check e g) = score g"
  "lives (game_over_check e g) = lives g"
  "invulnerable_timer (game_over_check e g) = invulnerable_timer g"
  "powerup_timers (game_over_check e g) = powerup_timers g"
  "pipe_speed (game_over_check e g) = pipe_speed g"
  "pipe_spawn_interval (game_over_check e g) = pipe_spawn_interval g"
  "time_since_last_pipe (game_over_check e g) = time_since_last_pipe g"
  by (simp_all add: game_over_check_def Let_def)

lemma hit_pipe_fields [simp]:
  "lives (hit_pipe e g) = lives g - 1"
  "invulnerable_timer (hit_pipe e g) = INVULNERABILITY_AFTER_HIT"
  "bird (hit_pipe e g) = (bird g)\<lparr>vel := - 160\<rparr>"
  "pipes (hit_pipe e g) = pipes g"
  "powerups (hit_pipe e g) = powerups g"
  "score (hit_pipe e g) = score g"
  "powerup_timers (hit_pipe e g) = powerup_timers g"
  "pipe_speed (hit_pipe e g) = pipe_speed g"
  "pipe_spawn_interval (hit_pipe e g) = pipe_spawn_interval g"
  "time_since_last_pipe (hit_pipe e g) = time_since_last_pipe g"
  by (simp_all add: hit_pipe_def Let_def)

lemma hit_ground_fields [simp]:
  "lives (hit_ground e g) = lives g - 1"
  "invulnerable_timer (hit_ground e g) = INVULNERABILITY_AFTER_HIT"
  "bird (hit_ground e g) = (bird g)\<lparr>vel := - 120\<rparr>"
  "pipes (hit_ground e g) = pipes g"
  "powerups (hit_ground e g) = powerups g"
  "score (hit_ground e g) = score g"
  "powerup_timers (hit_ground e g) = powerup_timers g"
  "pipe_speed (hit_ground e g) = pipe_speed g"
  "pipe_spawn_interval (hit_ground e g) = pipe_spawn_interval g"
  "time_since_last_pipe (hit_ground e g) = time_since_last_pipe g"
  by (simp_all add: hit_ground_def Let_def)

lemma pipe_collisions_cases:
  "pipe_collisions e circ ps g = g \<or> pipe_collisions e circ ps g = hit_pipe e g"
  by (induction ps) simp_all

lemma apply_powerup_frame [simp]:
  "bird (apply_powerup t g) = bird g"
  "pipes (apply_powerup t g) = pipes g"
  "powerups (apply_powerup t g) = powerups g"
  "score (apply_powerup t g) = score g"
  "lives (apply_powerup t g) = lives g"
  "invulnerable_timer (apply_powerup t g) = invulnerable_timer g"
  "pipe_speed (apply_powerup t g) = pipe_speed g"
  "pipe_spawn_interval (apply_powerup t g) = pipe_spawn_interval g"
  "time_since_last_pipe (apply_powerup t g) = time_since_last_pipe g"
  "state (apply_powerup t g) = state g"
  "high_score (apply_powerup t g) = high_score g"
  "disk (apply_powerup t g) = disk g"
  by (simp_all add: apply_powerup_def)

lemma collect_powerups_frame [simp]:
  "bird (collect_powerups e circ pus g) = bird g"
  "pipes (collect_powerups e circ pus g) = pipes g"
  "lives (collect_powerups e circ pus g) = lives g"
  "invulnerable_timer (collect_powerups e circ pus g) = invulnerable_timer g"
  "pipe_speed (collect_powerups e circ pus g) = pipe_speed g"
  "pipe_spawn_interval (collect_powerups e circ pus g) = pipe_spawn_interval g"
  "time_since_last_pipe (collect_powerups e circ pus g) = time_since_last_pipe g"
  "state (collect_powerups e circ pus g) = state g"
  "high_score (collect_powerups e circ pus g) = high_score g"
  "disk (collect_powerups e circ pus g) = disk g"
  by (induction pus arbitrary: g; simp add: Let_def)+

lemma collect_powerups_shield:
  "0 < timer_get (powerup_timers g) ''shield'' \<Longrightarrow>
   0 < timer_get (powerup_timers (collect_powerups e circ pus g)) ''shield''"
  by (induction pus arbitrary: g)
     (simp_all add: Let_def apply_powerup_def timer_get_def POWERUP_DURATION_def)

lemma handle_collisions_lives:
  "lives (handle_collisions e g) = lives g \<or> lives (handle_collisions e g) = lives g - 1"
proof -
  define circ where "circ = get_circle (bird g)"
  define g1 where "g1 = collect_powerups e circ (powerups g) (g\<lparr>powerups := []\<rparr>)"
  define g2 where "g2 = (if invulnerable_timer g1 \<le> 0 \<and> timer_get (powerup_timers g1) ''shield'' \<le> 0
                then pipe_collisions e circ (pipes g1) g1 else g1)"
  have hc: "handle_collisions e g =
     (if bird_y (bird g2) + real_of_int (bird_radius (bird g2)) \<ge> real_of_int (HEIGHT - 30)
         then
           (if invulnerable_timer g2 \<le> 0 \<and> timer_get (powerup_timers g2) ''shield'' \<le> 0
            then hit_ground e g2 else g2)
         else g2)"
    by (simp add: handle_collisions_def Let_def g2_def g1_def circ_def)
  have l1: "lives g1 = lives g" by (simp add: g1_def)
  have "g2 = g1 \<or> g2 = hit_pipe e g1"
    unfolding g2_def by (simp add: pipe_collisions_cases)
  then show ?thesis
  proof
    assume "g2 = g1"
    then show ?thesis by (simp add: hc l1)
  next
    assume "g2 = hit_pipe e g1"
    then have "invulnerable_timer g2 = INVULNERABILITY_AFTER_HIT" "lives g2 = lives g - 1"
      by (simp_all add: l1)
    then show ?thesis by (simp add: hc INVULNERABILITY_AFTER_HIT_def)
  qed
qed

lemma handle_collisions_shield:
  assumes "0 < timer_get (powerup_timers g) ''shield''"
  shows "lives (handle_collisions e g) = lives g"
proof -
  define circ where "circ = get_circle (bird g)"
  define g1 where "g1 = collect_powerups e circ (powerups g) (g\<lparr>powerups := []\<rparr>)"
  have s1: "0 < timer_get (powerup_timers g1) ''shield''"
    unfolding g1_def by (rule collect_powerups_shield) (use assms in simp)
  have l1: "lives g1 = lives g" by (simp add: g1_def)
  show ?thesis
    using s1 l1 by (simp add: handle_collisions_def Let_def g1_def circ_def)
qed

lemma spawn_pipe_frame [simp]:
  "bird (spawn_pipe e g) = bird g"
  "score (spawn_pipe e g) = score g"
  "lives (spawn_pipe e g) = lives g"
  "invulnerable_timer (spawn_pipe e g) = invulnerable_timer g"
  "powerup_timers (spawn_pipe e g) = powerup_timers g"
  "pipe_speed (spawn_pipe e g) = pipe_speed g"
  "pipe_spawn_interval (spawn_pipe e g) = pipe_spawn_interval g"
  "time_since_last_pipe (spawn_pipe e g) = time_since_last_pipe g"
  "state (spawn_pipe e g) = state g"
  "high_score (spawn_pipe e g) = high_score g"
  "disk (spawn_pipe e g) = disk g"
  by (simp_all add: spawn_pipe_def Let_def)

lemma spawn_stage_frame [simp]:
  "bird (spawn_stage dt e g) = bird g"
  "score (spawn_stage dt e g) = score g"
  "lives (spawn_stage dt e g) = lives g"
  "invulnerable_timer (spawn_stage dt e g) = invulnerable_timer g"
  "powerup_timers (spawn_stage dt e g) = powerup_timers g"
  "pipe_speed (spawn_stage dt e g) = pipe_speed g"
  "pipe_spawn_interval (spawn_stage dt e g) = pipe_spawn_interval g"
  "state (spawn_stage dt e g) = state g"
  "high_score (spawn_stage dt e g) = high_score g"
  "disk (spawn_stage dt e g) = disk g"
  by (simp_all add: spawn_stage_def Let_def)

lemma pipe_body_frame [simp]:
  "bird (pipe_body dt sp e p g) = bird g"
  "powerups (pipe_body dt sp e p g) = powerups g"
  "lives (pipe_body dt sp e p g) = lives g"
  "invulnerable_timer (pipe_body dt sp e p g) = invulnerable_timer g"
  "powerup_timers (pipe_body dt sp e p g) = powerup_timers g"
  "pipe_speed (pipe_body dt sp e p g) = pipe_speed g"
  "pipe_spawn_interval (pipe_body dt sp e p g) = pipe_spawn_interval g"
  "time_since_last_pipe (pipe_body dt sp e p g) = time_since_last_pipe g"
  "state (pipe_body dt sp e p g) = state g"
  "high_score (pipe_body dt sp e p g) = high_score g"
  "disk (pipe_body dt sp e p g) = disk g"
  by (simp_all add: pipe_body_def Let_def)

lemma pipes_loop_frame [simp]:
  "bird (pipes_loop dt sp e ps g) = bird g"
  "powerups (pipes_loop dt sp e ps g) = powerups g"
  "lives (pipes_loop dt sp e ps g) = lives g"
  "invulnerable_timer (pipes_loop dt sp e ps g) = invulnerable_timer g"
  "powerup_timers (pipes_loop dt sp e ps g) = powerup_timers g"
  "pipe_speed (pipes_loop dt sp e ps g) = pipe_speed g"
  "pipe_spawn_interval (pipes_loop dt sp e ps g) = pipe_spawn_interval g"
  "time_since_last_pipe (pipes_loop dt sp e ps g) = time_since_last_pipe g"
  "state (pipes_loop dt sp e ps g) = state g"
  "high_score (pipes_loop dt sp e ps g) = high_score g"
  "disk (pipes_loop dt sp e ps g) = disk g"
  by (induction ps arbitrary: g; simp)+

lemma update_pipes_frame [simp]:
  "bird (update_pipes dt sp e g) = bird g"
  "powerups (update_pipes dt sp e g) = powerups g"
  "lives (update_pipes dt sp e g) = lives g"
  "invulnerable_timer (update_pipes dt sp e g) = invulnerable_timer g"
  "powerup_timers (update_pipes dt sp e g) = powerup_timers g"
  "pipe_speed (update_pipes dt sp e g) = pipe_speed g"
  "pipe_spawn_interval (update_pipes dt sp e g) = pipe_spawn_interval g"
  "time_since_last_pipe (update_pipes dt sp e g) = time_since_last_pipe g"
  "state (update_pipes dt sp e g) = state g"
  "high_score (update_pipes dt sp e g) = high_score g"
  "disk (update_pipes dt sp e g) = disk g"
  by (simp_all add: update_pipes_def)

lemma powerups_loop_frame [simp]:
  "bird (powerups_loop dt sp e pus g) = bird g"
  "pipes (powerups_loop dt sp e pus g) = pipes g"
  "score (powerups_loop dt sp e pus g) = score g"
  "lives (powerups_loop dt sp e pus g) = lives g"
  "invulnerable_timer (powerups_loop dt sp e pus g) = invulnerable_timer g"
  "powerup_timers (powerups_loop dt sp e pus g) = powerup_timers g"
  "pipe_speed (powerups_loop dt sp e pus g) = pipe_speed g"
  "pipe_spawn_interval (powerups_loop dt sp e pus g) = pipe_spawn_interval g"
  "time_since_last_pipe (powerups_loop dt sp e pus g) = time_since_last_pipe g"
  "state (powerups_loop dt sp e pus g) = state g"
  "high_score (powerups_loop dt sp e pus g) = high_score g"
  "disk (powerups_loop dt sp e pus g) = disk g"
  by (induction pus arbitrary: g; simp add: Let_def)+

lemma update_powerups_frame [simp]:
  "bird (update_powerups dt sp e g) = bird g"
  "pipes (update_powerups dt sp e g) = pipes g"
  "score (update_powerups dt sp e g) = score g"
  "lives (update_powerups dt sp e g) = lives g"
  "invulnerable_timer (update_powerups dt sp e g) = invulnerable_timer g"
  "powerup_timers (update_powerups dt sp e g) = powerup_timers g"
  "pipe_speed (update_powerups dt sp e g) = pipe_speed g"
  "pipe_spawn_interval (update_powerups dt sp e g) = pipe_spawn_interval g"
  "time_since_last_pipe (update_powerups dt sp e g) = time_since_last_pipe g"
  "state (update_powerups dt sp e g) = state g"
  "high_score (update_powerups dt sp e g) = high_score g"
  "disk (update_powerups dt sp e g) = disk g"
  by (simp_all add: update_powerups_def)

lemma update_particles_frame [simp]:
  "bird (update_particles dt g) = bird g"
  "pipes (update_particles dt g) = pipes g"
  "powerups (update_particles dt g) = powerups g"
  "score (update_particles dt g) = score g"
  "lives (update_particles dt g) = lives g"
  "invulnerable_timer (update_particles dt g) = invulnerable_timer g"
  "powerup_timers (update_particles dt g) = powerup_timers g"
  "pipe_speed (update_particles dt g) = pipe_speed g"
  "pipe_spawn_interval (update_particles dt g) = pipe_spawn_interval g"
  "time_since_last_pipe (update_particles dt g) = time_since_last_pipe g"
  "state (update_particles dt g) = state g"
  "high_score (update_particles dt g) = high_score g"
  "disk (update_particles dt g) = disk g"
  by (simp_all add: update_particles_def)

lemma update_timers_frame [simp]:
  "bird (update_timers dt g) = bird g"
  "pipes (update_timers dt g) = pipes g"
  "powerups (update_timers dt g) = powerups g"
  "score (update_timers dt g) = score g"
  "lives (update_timers dt g) = lives g"
  "pipe_speed (update_timers dt g) = pipe_speed g"
  "pipe_spawn_interval (update_timers dt g) = pipe_spawn_interval g"
  "time_since_last_pipe (update_timers dt g) = time_since_last_pipe g"
  "state (update_timers dt g) = state g"
  "high_score (update_timers dt g) = high_score g"
  "disk (update_timers dt g) = disk g"
  by (simp_all add: update_timers_def Let_def)

lemma keep_below_top_frame [simp]:
  "pipes (keep_below_top g) = pipes g"
  "powerups (keep_below_top g) = powerups g"
  "score (keep_below_top g) = score g"
  "lives (keep_below_top g) = lives g"
  "invulnerable_timer (keep_below_top g) = invulnerable_timer g"
  "powerup_timers (keep_below_top g) = powerup_timers g"
  "pipe_speed (keep_below_top g) = pipe_speed g"
  "pipe_spawn_interval (keep_below_top g) = pipe_spawn_interval g"
  "time_since_last_pipe (keep_below_top g) = time_since_last_pipe g"
  "state (keep_below_top g) = state g"
  "high_score (keep_below_top g) = high_score g"
  "disk (keep_below_top g) = disk g"
  by (simp_all add: keep_below_top_def)

lemma handle_collisions_frame [simp]:
  "pipes (handle_collisions e g) = pipes g"
  "pipe_speed (handle_collisions e g) = pipe_speed g"
  "pipe_spawn_interval (handle_collisions e g) = pipe_spawn_interval g"
  "time_since_last_pipe (handle_collisions e g) = time_since_last_pipe g"
  using pipe_collisions_cases
    [of e "get_circle (bird g)"
       "pipes (collect_powerups e (get_circle (bird g)) (powerups g) (g\<lparr>powerups := []\<rparr>))"
       "collect_powerups e (get_circle (bird g)) (powerups g) (g\<lparr>powerups := []\<rparr>)"]
  by (auto simp: handle_collisions_def Let_def)

lemma update_playing:
  "state g = PLAYING \<Longrightarrow>
   update dt e g =
     keep_below_top (handle_collisions e (update_timers dt (update_particles dt
       (update_powerups dt (speed g) e (update_pipes dt (speed g) e
          ((spawn_stage dt e g)\<lparr>bird := Bird_update dt (bird (spawn_stage dt e g))\<rparr>))))))"
  by (simp add: update_def Let_def)

lemma update_not_playing:
  "state g \<noteq> PLAYING \<Longrightarrow> update dt e g = g\<lparr>clouds := map (move_cloud dt) (clouds g)\<rparr>"
  by (simp add: update_def)

lemma update_lives_cases:
  "lives (update dt e g) = lives g \<or> lives (update dt e g) = lives g - 1"
proof (cases "state g = PLAYING")
  case True
  show ?thesis
    using handle_collisions_lives
      [of e "update_timers dt (update_particles dt
       (update_powerups dt (speed g) e (update_pipes dt (speed g) e
          ((spawn_stage dt e g)\<lparr>bird := Bird_update dt (bird (spawn_stage dt e g))\<rparr>))))"]
    by (simp add: update_playing [OF True])
next
  case False
  then show ?thesis by (simp add: update_not_playing)
qed

lemma tick_timers_shield:
  "m k = Some t \<Longrightarrow> dt < t \<Longrightarrow> timer_get (tick_timers dt m) k = t - dt"
  by (simp add: tick_timers_def timer_get_def)

lemma update_shield:
  assumes "powerup_timers g ''shield'' = Some t" and "dt < t"
  shows "lives (update dt e g) = lives g"
proof (cases "state g = PLAYING")
  case True
  define g6 where "g6 = update_timers dt (update_particles dt
       (update_powerups dt (speed g) e (update_pipes dt (speed g) e
          ((spawn_stage dt e g)\<lparr>bird := Bird_update dt (bird (spawn_stage dt e g))\<rparr>))))"
  have "powerup_timers g6 = tick_timers dt (powerup_timers g)"
    by (simp add: g6_def update_timers_def Let_def)
  then have "0 < timer_get (powerup_timers g6) ''shield''"
    using assms by (simp add: tick_timers_shield)
  then have "lives (handle_collisions e g6) = lives g6"
    by (rule handle_collisions_shield)
  moreover have "lives g6 = lives g" by (simp add: g6_def)
  ultimately show ?thesis
    by (simp add: update_playing [OF True] g6_def)
next
  case False
  then show ?thesis by (simp add: update_not_playing)
qed

subsection \<open>Collisions in closed form, and the sessions of the examples\<close>

lemma pipe_collisions_eq:
  "pipe_collisions e circ ps g =
     (if \<exists>p\<in>set ps. pipe_collides_with_circle p circ then hit_pipe e g else g)"
  by (induction ps) simp_all

text \<open>The three ways a call of \<^verbatim>\<open>handle_collisions\<close> can end.\<close>

lemma handle_collisions_eq:
  "handle_collisions e g =
     (let circ = get_circle (bird g);
          g1 = collect_powerups e circ (powerups g) (g\<lparr>powerups := []\<rparr>);
          exposed = (invulnerable_timer g \<le> 0 \<and> timer_get (powerup_timers g1) ''shield'' \<le> 0)
      in if exposed \<and> (\<exists>p\<in>set (pipes g). pipe_collides_with_circle p circ) then hit_pipe e g1
         else if exposed \<and> bird_y (bird g) + real_of_int (bird_radius (bird g)) \<ge> real_of_int (HEIGHT - 30)
         then hit_ground e g1
         else g1)"
  by (simp add: handle_collisions_def Let_def pipe_collisions_eq INVULNERABILITY_AFTER_HIT_def)

lemma game_start_fields:
  "state game_start = PLAYING" "lives game_start = 3" "score game_start = 0"
  "pipes game_start = []" "powerups game_start = []" "invulnerable_timer game_start = 0"
  "powerup_timers game_start = Map.empty" "pipe_speed game_start = 180"
  "pipe_spawn_interval game_start = 16 / 10" "time_since_last_pipe game_start = 0"
  "high_score game_start = 0" "disk game_start = None"
  "bird game_start = Bird BIRD_X (HEIGHT div 2)"
  by (simp_all add: game_start_def Game_init_def reset_def Let_def config_defs load_highscore_def
     load_highscore_try_def)

lemma difficulty_zero: "score g = 0 \<Longrightarrow> difficulty_factor g = 1"
  by (simp add: difficulty_factor_def)

lemma scaling_time_upd [simp]:
  "difficulty_factor (g\<lparr>time_since_last_pipe := t\<rparr>) = difficulty_factor g"
  "speed (g\<lparr>time_since_last_pipe := t\<rparr>) = speed g"
  "spawn_interval (g\<lparr>time_since_last_pipe := t\<rparr>) = spawn_interval g"
  by (simp_all add: difficulty_factor_def speed_def spawn_interval_def)

lemma spawn_stage_not_due:
  "time_since_last_pipe g + dt < spawn_interval g \<Longrightarrow>
   spawn_stage dt e g = g\<lparr>time_since_last_pipe := time_since_last_pipe g + dt\<rparr>"
  by (simp add: spawn_stage_def Let_def)

lemma update_no_entities:
  assumes "state g = PLAYING" "pipes g = []" "powerups g = []"
    "time_since_last_pipe g + dt < spawn_interval g"
  shows "update dt e g =
    keep_below_top (handle_collisions e (update_timers dt (update_particles dt
      (g\<lparr>time_since_last_pipe := time_since_last_pipe g + dt, bird := Bird_update dt (bird g),
         pipes := [], powerups := []\<rparr>))))"
  using assms
  by (simp add: update_playing spawn_stage_not_due update_pipes_def update_powerups_def)

lemma game_low_shield_fields:
  "state game_low_shield = PLAYING" "pipes game_low_shield = []"
  "powerups game_low_shield = []" "time_since_last_pipe game_low_shield = 0"
  "score game_low_shield = 0" "pipe_spawn_interval game_low_shield = 16 / 10"
  "lives game_low_shield = 3" "invulnerable_timer game_low_shield = 0"
  "bird game_low_shield = (Bird BIRD_X (HEIGHT div 2))\<lparr>bird_y := 680\<rparr>"
  "powerup_timers game_low_shield = [''shield'' \<mapsto> 1 / 125]"
  by (simp_all add: game_low_shield_def game_start_fields)

subsection \<open>The loop over the pipes, and \<^verbatim>\<open>reset\<close>\<close>

lemma pipe_body_eq:
  "pipes (pipe_body dt sp e p g) =
     pipes g @ filter (\<lambda>q. \<not> off_screen q) [pipe_after dt sp (bird_x (bird g)) p]"
  "score (pipe_body dt sp e p g) =
     score g + (if newly_passed dt sp (bird_x (bird g)) p then 1 else 0)"
  by (simp_all add: pipe_body_def pipe_after_def newly_passed_def Let_def)

lemma pipes_loop_eq:
  "pipes (pipes_loop dt sp e ps g) =
     pipes g @ filter (\<lambda>q. \<not> off_screen q) (map (pipe_after dt sp (bird_x (bird g))) ps)"
  "score (pipes_loop dt sp e ps g) =
     score g + int (length (filter (newly_passed dt sp (bird_x (bird g))) ps))"
  by (induction ps arbitrary: g; simp add: pipe_body_eq)+

lemma update_pipes_eq:
  "pipes (update_pipes dt sp e g) =
     filter (\<lambda>q. \<not> off_screen q) (map (pipe_after dt sp (bird_x (bird g))) (pipes g))"
  "score (update_pipes dt sp e g) =
     score g + int (length (filter (newly_passed dt sp (bird_x (bird g))) (pipes g)))"
  by (simp_all add: update_pipes_def pipes_loop_eq)



lemma pipe_after_x: "pipe_x (pipe_after dt sp bx p) = pipe_x p - sp * dt"
  by (simp add: pipe_after_def pipe_update_def Let_def)


lemma reset_fields:
  "state (reset e g) = MENU" "score (reset e g) = 0" "lives (reset e g) = START_LIVES"
  "pipes (reset e g) = []" "powerups (reset e g) = []" "invulnerable_timer (reset e g) = 0"
  "powerup_timers (reset e g) = Map.empty" "time_since_last_pipe (reset e g) = 0"
  "high_score (reset e g) = high_score g" "bird (reset e g) = Bird BIRD_X (HEIGHT div 2)"
  "pipe_speed (reset e g) = PIPE_SPEED_BASE"
  "pipe_spawn_interval (reset e g) = PIPE_SPAWN_INTERVAL"
  "disk (reset e g) = disk g" "particles (reset e g) = particles g"
  "clouds (reset e g) = clouds g"
  by (simp_all add: reset_def)

lemma game_lost_fields:
  "state game_lost = GAME_OVER" "high_score game_lost = 5" "score game_lost = 7"
  by (simp_all add: game_lost_def game_last_life_def)

subsection \<open>The spawn timer and the pipes after a frame\<close>

lemma bird_x_Bird_update [simp]: "bird_x (Bird_update dt b) = bird_x b"
  by (simp add: Bird_update_def Let_def)

lemma spawn_stage_time:
  "time_since_last_pipe (spawn_stage dt e g) =
     (if spawn_interval g \<le> time_since_last_pipe g + dt then 0
      else time_since_last_pipe g + dt)"
  by (simp add: spawn_stage_def Let_def)

lemma spawn_pipe_pipes:
  "pipes (spawn_pipe e g) =
     pipes g @ [Pipe (WIDTH + 40) (randint e (calls g) PIPE_MIN_TOP (HEIGHT - PIPE_GAP - 140))
                  PIPE_GAP (choice e (calls g + 1) PIPE_PALETTE)]"
  by (simp add: spawn_pipe_def Let_def)

lemma spawn_stage_pipes:
  "pipes (spawn_stage dt e g) =
     (if spawn_interval g \<le> time_since_last_pipe g + dt
      then pipes g @ [Pipe (WIDTH + 40)
                        (randint e (calls g) PIPE_MIN_TOP (HEIGHT - PIPE_GAP - 140))
                        PIPE_GAP (choice e (calls g + 1) PIPE_PALETTE)]
      else pipes g)"
  by (simp add: spawn_stage_def Let_def spawn_pipe_pipes)

lemma update_time:
  "state g = PLAYING \<Longrightarrow>
   time_since_last_pipe (update dt e g) =
     (if spawn_interval g \<le> time_since_last_pipe g + dt then 0
      else time_since_last_pipe g + dt)"
  by (simp add: update_playing spawn_stage_time)

lemma update_pipes_of_update:
  "state g = PLAYING \<Longrightarrow>
   pipes (update dt e g) =
     filter (\<lambda>q. \<not> off_screen q)
       (map (pipe_after dt (speed g) (bird_x (bird g))) (pipes (spawn_stage dt e g)))"
  by (simp add: update_playing update_pipes_eq)

lemma update_keeps_scaling:
  "pipe_speed (update dt e g) = pipe_speed g"
  "pipe_spawn_interval (update dt e g) = pipe_spawn_interval g"
  by (cases "state g = PLAYING"; simp add: update_playing update_not_playing)+

subsection \<open>The states the program reaches\<close>

lemma handle_event_scaling:
  "handle_event e ev g = Inr g' \<Longrightarrow>
   pipe_speed g = PIPE_SPEED_BASE \<and> pipe_spawn_interval g = PIPE_SPAWN_INTERVAL \<Longrightarrow>
   pipe_speed g' = PIPE_SPEED_BASE \<and> pipe_spawn_interval g' = PIPE_SPAWN_INTERVAL"
  by (cases ev) (auto simp: reset_fields split: if_splits)

lemma handle_input_scaling:
  "handle_input e evs g = Inr g' \<Longrightarrow>
   pipe_speed g = PIPE_SPEED_BASE \<and> pipe_spawn_interval g = PIPE_SPAWN_INTERVAL \<Longrightarrow>
   pipe_speed g' = PIPE_SPEED_BASE \<and> pipe_spawn_interval g' = PIPE_SPAWN_INTERVAL"
proof (induction evs arbitrary: g)
  case Nil
  then show ?case by simp
next
  case (Cons ev evs)
  from Cons.prems(1) obtain g1 where g1: "handle_event e ev g = Inr g1"
    and rest: "handle_input e evs g1 = Inr g'"
    by (auto split: sum.splits)
  from handle_event_scaling [OF g1 Cons.prems(2)] Cons.IH [OF rest] show ?case by blast
qed

lemma Game_init_scaling:
  "pipe_speed (Game_init e d) = PIPE_SPEED_BASE"
  "pipe_spawn_interval (Game_init e d) = PIPE_SPAWN_INTERVAL"
  by (simp_all add: Game_init_def reset_def Let_def)

lemma reachable_scaling:
  "reachable g \<Longrightarrow>
   pipe_speed g = PIPE_SPEED_BASE \<and> pipe_spawn_interval g = PIPE_SPAWN_INTERVAL"
proof (induction rule: reachable.induct)
  case (init e d)
  show ?case by (simp add: Game_init_scaling)
next
  case (step g e ms evs g')
  from step.hyps(2) obtain g1 where g1: "handle_input e evs g = Inr g1"
    and g': "g' = update (real ms / 1000) e g1"
    by (auto simp: run_step_def Let_def split: sum.splits)
  from handle_input_scaling [OF g1 step.IH] show ?case
    by (simp add: g' update_keeps_scaling)
qed

lemma reachable_game_start: "reachable (update (2 / 125) env_ok game_start)"
proof -
  have "run_step env_ok 16 [KEYDOWN K_SPACE] (Game_init env_ok None)
      = Inr (update (2 / 125) env_ok game_start)"
    by (simp add: run_step_def game_start_def Game_init_def reset_def Let_def)
  with reachable.init [of env_ok None] show ?thesis
    by (rule reachable.step)
qed

lemma pipe_after_keeps [simp]:
  "pipe_width (pipe_after dt sp bx p) = pipe_width p"
  "pipe_top (pipe_after dt sp bx p) = pipe_top p"
  "pipe_gap (pipe_after dt sp bx p) = pipe_gap p"
  by (simp_all add: pipe_after_def pipe_update_def Let_def)

lemma first_frame_fields:
  "state (update (2 / 125) env_ok game_start) = PLAYING"
  "score (update (2 / 125) env_ok game_start) = 0"
  "time_since_last_pipe (update (2 / 125) env_ok game_start) = 2 / 125"
  "pipes (update (2 / 125) env_ok game_start) = []"
  "powerup_timers (update (2 / 125) env_ok game_start) = Map.empty"
proof -
  note f = game_start_fields
  have due: "time_since_last_pipe game_start + 2 / 125 < spawn_interval game_start"
    by (simp add: f spawn_interval_def difficulty_zero)
  note u = update_no_entities [OF f(1) f(4) f(5) due]
  show "state (update (2 / 125) env_ok game_start) = PLAYING"
    "score (update (2 / 125) env_ok game_start) = 0"
    "powerup_timers (update (2 / 125) env_ok game_start) = Map.empty"
    by (simp_all add: u handle_collisions_eq Let_def f update_timers_def update_particles_def
        tick_timers_def timer_get_def get_circle_def Bird_update_def Bird_def clamp_def
        config_defs)
  show "time_since_last_pipe (update (2 / 125) env_ok game_start) = 2 / 125"
    "pipes (update (2 / 125) env_ok game_start) = []"
    by (simp_all add: u f)
qed

subsection \<open>The end of a game\<close>

lemma game_over_check_over:
  assumes "lives g \<le> 0"
  shows "state (game_over_check e g) = GAME_OVER"
    "high_score (game_over_check e g) = max (high_score g) (score g)"
    "disk (game_over_check e g) =
       (if high_score g < score g
        then save_highscore (write_at e (calls g)) (score g) (disk g) else disk g)"
  using assms by (simp_all add: game_over_check_def Let_def)

lemma hit_pipe_over:
  assumes "lives g \<le> 1"
  shows "state (hit_pipe e g) = GAME_OVER"
    "high_score (hit_pipe e g) = max (high_score g) (score g)"
    "\<exists>k. disk (hit_pipe e g) =
       (if high_score g < score g
        then save_highscore (write_at e k) (score g) (disk g) else disk g)"
  using assms by (simp_all add: hit_pipe_def Let_def game_over_check_over) blast

lemma hit_ground_over:
  assumes "lives g \<le> 1"
  shows "state (hit_ground e g) = GAME_OVER"
    "high_score (hit_ground e g) = max (high_score g) (score g)"
    "\<exists>k. disk (hit_ground e g) =
       (if high_score g < score g
        then save_highscore (write_at e k) (score g) (disk g) else disk g)"
  using assms by (simp_all add: hit_ground_def Let_def game_over_check_over) blast

lemma handle_collisions_ends:
  "handle_collisions e g = collect_powerups e (get_circle (bird g)) (powerups g) (g\<lparr>powerups := []\<rparr>)
   \<or> handle_collisions e g = hit_pipe e (collect_powerups e (get_circle (bird g)) (powerups g) (g\<lparr>powerups := []\<rparr>))
   \<or> handle_collisions e g = hit_ground e (collect_powerups e (get_circle (bird g)) (powerups g) (g\<lparr>powerups := []\<rparr>))"
  by (simp add: handle_collisions_eq Let_def)

lemma handle_collisions_over:
  assumes "0 < lives g" and "lives (handle_collisions e g) \<le> 0"
  shows "state (handle_collisions e g) = GAME_OVER
    \<and> high_score (handle_collisions e g) = max (high_score g) (score (handle_collisions e g))
    \<and> (\<exists>k. disk (handle_collisions e g) =
         (if high_score g < score (handle_collisions e g)
          then save_highscore (write_at e k) (score (handle_collisions e g)) (disk g)
          else disk g))"
proof -
  define g1 where "g1 = collect_powerups e (get_circle (bird g)) (powerups g) (g\<lparr>powerups := []\<rparr>)"
  have g1: "lives g1 = lives g" "high_score g1 = high_score g" "disk g1 = disk g"
    by (simp_all add: g1_def)
  from handle_collisions_ends [of e g]
  consider "handle_collisions e g = g1" | "handle_collisions e g = hit_pipe e g1"
    | "handle_collisions e g = hit_ground e g1"
    unfolding g1_def by blast
  then show ?thesis
  proof cases
    case 1
    with assms g1 show ?thesis by simp
  next
    case 2
    with assms g1 have "lives g1 \<le> 1" by simp
    from hit_pipe_over [OF this, of e] show ?thesis
      by (auto simp: 2 g1 split: if_splits)
  next
    case 3
    with assms g1 have "lives g1 \<le> 1" by simp
    from hit_ground_over [OF this, of e] show ?thesis
      by (auto simp: 3 g1 split: if_splits)
  qed
qed

lemma update_over:
  assumes "0 < lives g" and "lives (update dt e g) \<le> 0"
  shows "state (update dt e g) = GAME_OVER
    \<and> high_score (update dt e g) = max (high_score g) (score (update dt e g))
    \<and> (\<exists>k. disk (update dt e g) =
         (if high_score g < score (update dt e g)
          then save_highscore (write_at e k) (score (update dt e g)) (disk g)
          else disk g))"
proof (cases "state g = PLAYING")
  case True
  define g6 where "g6 = update_timers dt (update_particles dt
       (update_powerups dt (speed g) e (update_pipes dt (speed g) e
          ((spawn_stage dt e g)\<lparr>bird := Bird_update dt (bird (spawn_stage dt e g))\<rparr>))))"
  have u: "update dt e g = keep_below_top (handle_collisions e g6)"
    by (simp add: update_playing [OF True] g6_def)
  have g6: "lives g6 = lives g" "high_score g6 = high_score g" "disk g6 = disk g"
    by (simp_all add: g6_def)
  have "0 < lives g6" "lives (handle_collisions e g6) \<le> 0"
    using assms by (simp_all add: u g6)
  from handle_collisions_over [OF this] show ?thesis
    by (auto simp: u g6 split: if_splits)
next
  case False
  with assms show ?thesis by (simp add: update_not_playing)
qed

lemma load_five: "load_highscore (Some ''5'') = 5"
  by (simp add: load_highscore_def load_highscore_try_def py_int_def strip_def is_space_def
      int_unsigned_def is_digit_def digit_of_def)

lemma game_last_life_fields:
  "state game_last_life = PLAYING" "pipes game_last_life = []"
  "powerups game_last_life = []" "time_since_last_pipe game_last_life = 0"
  "score game_last_life = 7" "pipe_spawn_interval game_last_life = 16 / 10"
  "lives game_last_life = 1" "invulnerable_timer game_last_life = 0"
  "bird game_last_life = (Bird BIRD_X (HEIGHT div 2))\<lparr>bird_y := 680\<rparr>"
  "powerup_timers game_last_life = Map.empty" "high_score game_last_life = 5"
  "disk game_last_life = Some ''5''"
  by (simp_all add: game_last_life_def game_start_fields)

lemma last_life_after:
  "lives (update (2 / 125) e game_last_life) = 0"
  "state (update (2 / 125) e game_last_life) = GAME_OVER"
  "score (update (2 / 125) e game_last_life) = 7"
  "high_score (update (2 / 125) e game_last_life) = 7"
  "\<exists>k. disk (update (2 / 125) e game_last_life) = save_highscore (write_at e k) 7 (Some ''5'')"
proof -
  note f = game_last_life_fields
  define G where "G = update_timers (2 / 125) (update_particles (2 / 125)
      (game_last_life\<lparr>time_since_last_pipe := time_since_last_pipe game_last_life + 2 / 125,
         bird := Bird_update (2 / 125) (bird game_last_life), pipes := [], powerups := []\<rparr>))"
  have "difficulty_factor game_last_life = 1 + ln 8 * (5 / 100)"
    by (simp add: difficulty_factor_def f)
  moreover have "0 < ln (8 :: real)" by simp
  ultimately have d: "1 < difficulty_factor game_last_life" by simp
  have "(2 / 125 :: real) < 1" by simp
  then have due: "time_since_last_pipe game_last_life + 2 / 125 < spawn_interval game_last_life"
    by (simp add: f spawn_interval_def)
  have u: "update (2 / 125) e game_last_life = keep_below_top (handle_collisions e G)"
    unfolding G_def by (rule update_no_entities [OF f(1) f(2) f(3) due])
  have G: "pipes G = []" "powerups G = []" "invulnerable_timer G = 0"
    "powerup_timers G = Map.empty" "bird_y (bird G) = 680 + 32 / 125"
    "bird_radius (bird G) = 18" "lives G = 1" "score G = 7" "high_score G = 5"
    "disk G = Some ''5''" "state G = PLAYING"
    by (simp_all add: G_def f update_timers_def update_particles_def tick_timers_def
        Bird_update_def Bird_def clamp_def config_defs Let_def)
  have h: "handle_collisions e G = hit_ground e (G\<lparr>powerups := []\<rparr>)"
    by (simp add: handle_collisions_eq Let_def G timer_get_def get_circle_def HEIGHT_def)
  show "lives (update (2 / 125) e game_last_life) = 0"
    "score (update (2 / 125) e game_last_life) = 7"
    by (simp_all add: u h G)
  show "state (update (2 / 125) e game_last_life) = GAME_OVER"
    "high_score (update (2 / 125) e game_last_life) = 7"
    by (simp_all add: u h hit_ground_over G)
  show "\<exists>k. disk (update (2 / 125) e game_last_life)
      = save_highscore (write_at e k) 7 (Some ''5'')"
    using hit_ground_over(3) [of "G\<lparr>powerups := []\<rparr>" e] by (simp add: u h G)
qed

lemma last_life_disk_readonly:
  "disk (update (2 / 125) env_readonly game_last_life) = Some ''5''"
  using last_life_after(5) [of env_readonly]
  by (auto simp: env_readonly_def save_highscore_def save_highscore_try_def)

subsection \<open>Reading the file, and the outcome of a write\<close>

lemma strip_prefix: "\<exists>zs. dropWhile P t = rev (dropWhile P (rev (dropWhile P t))) @ zs"
proof -
  have "rev (dropWhile P t) = takeWhile P (rev (dropWhile P t)) @ dropWhile P (rev (dropWhile P t))"
    by simp
  then have "rev (rev (dropWhile P t))
      = rev (takeWhile P (rev (dropWhile P t)) @ dropWhile P (rev (dropWhile P t)))"
    by simp
  then have "dropWhile P t
      = rev (dropWhile P (rev (dropWhile P t))) @ rev (takeWhile P (rev (dropWhile P t)))"
    by (simp del: takeWhile_dropWhile_id)
  then show ?thesis by (rule exI)
qed

lemma strip_strip: "strip (strip s) = strip s"
proof (cases "strip s = []")
  case True
  then show ?thesis using strip_def [of "[]"] by simp
next
  case False
  define t where "t = dropWhile is_space s"
  define u where "u = dropWhile is_space (rev t)"
  have su: "strip s = rev u" by (simp add: strip_def t_def u_def)
  with False have "u \<noteq> []" by simp
  obtain zs where zs: "t = rev u @ zs"
    using strip_prefix [of is_space s] by (auto simp: t_def u_def)
  have "t \<noteq> []" using zs \<open>u \<noteq> []\<close> by simp
  then have "\<not> is_space (hd t)" unfolding t_def by (simp add: hd_dropWhile)
  moreover have "hd t = hd (rev u)" using zs \<open>u \<noteq> []\<close> by simp
  ultimately have a: "dropWhile is_space (rev u) = rev u"
    using \<open>u \<noteq> []\<close> by (simp add: dropWhile_self)
  have b: "dropWhile is_space u = u" unfolding u_def by simp
  have "strip (rev u) = rev (dropWhile is_space (rev (dropWhile is_space (rev u))))"
    by (simp only: strip_def)
  also have "\<dots> = rev u" by (simp only: a b rev_rev_ident)
  finally show ?thesis by (simp only: su)
qed

lemma load_highscore_eq:
  "load_highscore None = 0"
  "load_highscore (Some s) = (case py_int s of Inl err \<Rightarrow> 0 | Inr n \<Rightarrow> n)"
proof -
  show "load_highscore None = 0"
    by (simp add: load_highscore_def load_highscore_try_def)
  have "py_int (strip s) = py_int s"
    by (simp add: py_int_def strip_strip)
  moreover have "py_int s = Inl ValueError" if "strip s = []"
    using that by (simp add: py_int_def)
  ultimately show "load_highscore (Some s) = (case py_int s of Inl err \<Rightarrow> 0 | Inr n \<Rightarrow> n)"
    by (simp add: load_highscore_def load_highscore_try_def Let_def)
qed

lemma draws_write_upd [simp]:
  "uniform (e\<lparr>write_at := w\<rparr>) k a b = uniform e k a b"
  "randint (e\<lparr>write_at := w\<rparr>) k i j = randint e k i j"
  "choice (e\<lparr>write_at := w\<rparr>) k xs = choice e k xs"
  by (simp_all add: uniform_def randint_def choice_def)

lemma spawn_particles_write_upd [simp]:
  "spawn_particles (e\<lparr>write_at := w\<rparr>) x y c n g = spawn_particles e x y c n g"
  by (induction n arbitrary: g) (simp_all add: Let_def)

lemma spawn_stage_write_upd [simp]:
  "spawn_stage dt (e\<lparr>write_at := w\<rparr>) g = spawn_stage dt e g"
  by (simp add: spawn_stage_def spawn_pipe_def Let_def)

lemma pipes_loop_write_upd [simp]:
  "pipes_loop dt sp (e\<lparr>write_at := w\<rparr>) ps g = pipes_loop dt sp e ps g"
  by (induction ps arbitrary: g) (simp_all add: pipe_body_def Let_def)

lemma powerups_loop_write_upd [simp]:
  "powerups_loop dt sp (e\<lparr>write_at := w\<rparr>) pus g = powerups_loop dt sp e pus g"
  by (induction pus arbitrary: g) (simp_all add: Let_def)

lemma collect_powerups_write_upd [simp]:
  "collect_powerups (e\<lparr>write_at := w\<rparr>) circ pus g = collect_powerups e circ pus g"
  by (induction pus arbitrary: g) (simp_all add: Let_def)

lemma game_over_check_write_upd:
  "(game_over_check (e\<lparr>write_at := w\<rparr>) g)\<lparr>disk := x\<rparr> = (game_over_check e g)\<lparr>disk := x\<rparr>"
  by (simp add: game_over_check_def Let_def)

lemma hit_write_upd:
  "(hit_pipe (e\<lparr>write_at := w\<rparr>) g)\<lparr>disk := x\<rparr> = (hit_pipe e g)\<lparr>disk := x\<rparr>"
  "(hit_ground (e\<lparr>write_at := w\<rparr>) g)\<lparr>disk := x\<rparr> = (hit_ground e g)\<lparr>disk := x\<rparr>"
  by (simp_all add: hit_pipe_def hit_ground_def Let_def game_over_check_write_upd)

lemma handle_collisions_write_upd:
  "(handle_collisions (e\<lparr>write_at := w\<rparr>) g)\<lparr>disk := x\<rparr> = (handle_collisions e g)\<lparr>disk := x\<rparr>"
  by (auto simp: handle_collisions_eq Let_def hit_write_upd)

lemma keep_below_top_disk_upd:
  "(keep_below_top g)\<lparr>disk := x\<rparr> = keep_below_top (g\<lparr>disk := x\<rparr>)"
  by (simp add: keep_below_top_def)

lemma update_write_upd:
  "(update dt (e\<lparr>write_at := w\<rparr>) g)\<lparr>disk := x\<rparr> = (update dt e g)\<lparr>disk := x\<rparr>"
proof (cases "state g = PLAYING")
  case True
  show ?thesis
    by (simp add: update_playing [OF True] keep_below_top_disk_upd handle_collisions_write_upd
        update_pipes_def update_powerups_def)
next
  case False
  then show ?thesis by (simp add: update_not_playing)
qed

subsection \<open>Two frames worked out\<close>

lemma flap_first_frame:
  "vel (bird (update (1 / 10) e (game_start\<lparr>bird := flap (bird game_start)\<rparr>))) = - 280"
proof -
  note f = game_start_fields
  define g where "g = game_start\<lparr>bird := flap (bird game_start)\<rparr>"
  have gf: "state g = PLAYING" "pipes g = []" "powerups g = []" "time_since_last_pipe g = 0"
    "score g = 0" "pipe_spawn_interval g = 16 / 10" "invulnerable_timer g = 0"
    "bird g = flap (Bird BIRD_X (HEIGHT div 2))" "powerup_timers g = Map.empty"
    by (simp_all add: g_def f)
  have due: "time_since_last_pipe g + 1 / 10 < spawn_interval g"
    by (simp add: gf spawn_interval_def difficulty_zero)
  show ?thesis
    unfolding g_def [symmetric]
    by (simp add: update_no_entities [OF gf(1) gf(2) gf(3) due] handle_collisions_eq Let_def gf
        update_timers_def update_particles_def tick_timers_def timer_get_def get_circle_def
        keep_below_top_def flap_def Bird_update_def Bird_def clamp_def config_defs)
qed

lemma pipe_and_ground_fields:
  "state game_pipe_and_ground = PLAYING" "powerups game_pipe_and_ground = []"
  "time_since_last_pipe game_pipe_and_ground = 0" "score game_pipe_and_ground = 0"
  "pipe_spawn_interval game_pipe_and_ground = 16 / 10" "lives game_pipe_and_ground = 3"
  "invulnerable_timer game_pipe_and_ground = 0" "pipe_speed game_pipe_and_ground = 180"
  "bird game_pipe_and_ground = (Bird BIRD_X (HEIGHT div 2))\<lparr>bird_y := 680\<rparr>"
  "powerup_timers game_pipe_and_ground = Map.empty"
  "pipes game_pipe_and_ground = [(Pipe 100 200 PIPE_GAP (6, 214, 160))\<lparr>passed := True\<rparr>]"
  by (simp_all add: game_pipe_and_ground_def game_start_fields)

lemma pipe_and_ground_after:
  "lives (update (2 / 125) e game_pipe_and_ground) = 2"
  "vel (bird (update (2 / 125) e game_pipe_and_ground)) = - 160"
proof -
  note f = pipe_and_ground_fields
  define G where "G = update_timers (2 / 125) (update_particles (2 / 125)
       (update_powerups (2 / 125) (speed game_pipe_and_ground) e
         (update_pipes (2 / 125) (speed game_pipe_and_ground) e
          ((spawn_stage (2 / 125) e game_pipe_and_ground)
             \<lparr>bird := Bird_update (2 / 125) (bird (spawn_stage (2 / 125) e game_pipe_and_ground))\<rparr>))))"
  have u: "update (2 / 125) e game_pipe_and_ground = keep_below_top (handle_collisions e G)"
    unfolding G_def by (rule update_playing [OF f(1)])
  have sp: "speed game_pipe_and_ground = 180"
    by (simp add: speed_def f difficulty_zero timer_get_def)
  have due: "time_since_last_pipe game_pipe_and_ground + 2 / 125 < spawn_interval game_pipe_and_ground"
    by (simp add: f spawn_interval_def difficulty_zero)
  have G: "powerups G = []" "invulnerable_timer G = 0" "powerup_timers G = Map.empty"
    "bird G = \<lparr>bird_x = 120, bird_y = 680 + 32 / 125, vel = 16, bird_radius = 18,
       alive = True, flap_phase = 0\<rparr>"
    "lives G = 3"
    "pipes G = [\<lparr>pipe_x = 100 - 72 / 25, pipe_top = 200, pipe_gap = 190, pipe_width = 88,
       pipe_color = (6, 214, 160), passed = True\<rparr>]"
    by (simp_all add: G_def f sp spawn_stage_not_due [OF due] update_timers_def
        update_powerups_def update_pipes_eq pipe_after_def pipe_update_def off_screen_def Pipe_def
        tick_timers_def Bird_update_def Bird_def clamp_def config_defs Let_def)
  have tr: "py_trunc (2428 / 25) = 97"
    by (simp add: py_trunc_def)
  have hit: "pipe_collides_with_circle
      \<lparr>pipe_x = 100 - 72 / 25, pipe_top = 200, pipe_gap = 190, pipe_width = 88,
       pipe_color = (6, 214, 160), passed = True\<rparr> (120, 680 + 32 / 125, 18)"
    by (simp add: pipe_collides_with_circle_def circle_rect_collision_def clamp_def
        rect_right_def rect_bottom_def tr HEIGHT_def Let_def)
  have h: "handle_collisions e G = hit_pipe e (G\<lparr>powerups := []\<rparr>)"
    using hit by (simp add: handle_collisions_eq Let_def G timer_get_def get_circle_def)
  show "lives (update (2 / 125) e game_pipe_and_ground) = 2"
    by (simp add: u h G)
  show "vel (bird (update (2 / 125) e game_pipe_and_ground)) = - 160"
    by (simp add: u h G keep_below_top_def)
qed

subsection \<open>The velocity of the bird after its update\<close>

lemma clamp_cases:
  "a \<le> b \<Longrightarrow> clamp v a b = (if v < a then a else if b < v then b else v)"
  by (simp add: clamp_def)

lemma clamp_bounds: "a \<le> b \<Longrightarrow> a \<le> clamp v a b \<and> clamp v a b \<le> b"
  by (simp add: clamp_def)

lemma Bird_update_vel:
  "vel (Bird_update dt b) =
     (if vel b + 1000 * dt < - 1000 then - 1000
      else if 800 < vel b + 1000 * dt then 800
      else vel b + 1000 * dt)"
proof -
  have "vel (Bird_update dt b) = clamp (vel b + 1000 * dt) (- 1000) 800"
    by (simp add: Bird_update_def GRAVITY_def MAX_FALL_SPEED_def Let_def)
  also have "\<dots> = (if vel b + 1000 * dt < - 1000 then - 1000
      else if 800 < vel b + 1000 * dt then 800
      else vel b + 1000 * dt)"
    by (rule clamp_cases) simp
  finally show ?thesis .
qed

lemma Bird_update_vel_bounds:
  "- 1000 \<le> vel (Bird_update dt b) \<and> vel (Bird_update dt b) \<le> MAX_FALL_SPEED"
  by (simp add: Bird_update_vel MAX_FALL_SPEED_def)

lemma Bird_update_y:
  "bird_y (Bird_update dt b) = bird_y b + vel (Bird_update dt b) * dt"
  by (simp add: Bird_update_def Let_def)

section \<open>The claims\<close>

subsection \<open>C5: flap and the integration of the bird\<close>

text \<open>
  C5. \<^verbatim>\<open>Bird.flap\<close> sets the vertical velocity to \<open>JUMP_VELOCITY = -380\<close> whatever the
  velocity was. \<^verbatim>\<open>Bird.update(dt)\<close> sets the velocity to
  \<open>clamp(vel + GRAVITY * dt, -1000, MAX_FALL_SPEED)\<close>, that is to \<open>vel + 1000 * dt\<close>
  when this lies between \<open>-1000\<close> and \<open>800\<close>, to \<open>-1000\<close> when it is below and to \<open>800\<close>
  when it is above, so that the new velocity is never below \<open>-1000\<close> and never above
  \<open>MAX_FALL_SPEED\<close>; then it adds the new velocity times \<open>dt\<close> to \<open>y\<close>. After a flap and
  one update with \<open>dt = 0.1\<close> the velocity is \<open>-280\<close>, and so it is after a flap and one
  call of \<^verbatim>\<open>Game.update\<close> with \<open>dt = 0.1\<close> in a new game.
\<close>

theorem flap_then_integrate:
  "vel (flap b) = JUMP_VELOCITY \<and> JUMP_VELOCITY = - 380
   \<and> vel (flap (b\<lparr>vel := v\<rparr>)) = - 380
   \<and> vel (Bird_update dt b) = clamp (vel b + GRAVITY * dt) (- 1000) MAX_FALL_SPEED
   \<and> GRAVITY = 1000 \<and> MAX_FALL_SPEED = 800
   \<and> vel (Bird_update dt b) =
       (if vel b + 1000 * dt < - 1000 then - 1000
        else if 800 < vel b + 1000 * dt then 800
        else vel b + 1000 * dt)
   \<and> - 1000 \<le> vel (Bird_update dt b) \<and> vel (Bird_update dt b) \<le> MAX_FALL_SPEED
   \<and> bird_y (Bird_update dt b) = bird_y b + vel (Bird_update dt b) * dt
   \<and> vel (Bird_update (1 / 10) (flap b)) = - 280
   \<and> vel (bird (update (1 / 10) e (game_start\<lparr>bird := flap (bird game_start)\<rparr>))) = - 280"
proof -
  have "vel (flap b) = JUMP_VELOCITY" "JUMP_VELOCITY = - 380" "vel (flap (b\<lparr>vel := v\<rparr>)) = - 380"
    "GRAVITY = 1000" "MAX_FALL_SPEED = 800"
    by (simp_all add: flap_def config_defs)
  moreover have
    "vel (Bird_update dt b) = clamp (vel b + GRAVITY * dt) (- 1000) MAX_FALL_SPEED"
    by (simp add: Bird_update_def Let_def)
  moreover have "vel (Bird_update (1 / 10) (flap b)) = - 280"
    by (simp add: Bird_update_vel flap_def JUMP_VELOCITY_def)
  moreover note Bird_update_vel [of dt b] Bird_update_vel_bounds [of dt b]
    Bird_update_y [of dt b] flap_first_frame [of e]
  ultimately show ?thesis by blast
qed

theorem flap_then_integrate_witness:
  "vel (Bird_update (1 / 10) (flap (Bird BIRD_X (HEIGHT div 2)))) = - 280
   \<and> bird_y (Bird_update (1 / 10) (flap (Bird BIRD_X (HEIGHT div 2)))) = 332
   \<and> vel (Bird_update (1 / 10) ((Bird BIRD_X (HEIGHT div 2))\<lparr>vel := 790\<rparr>)) = 800
   \<and> bird_y (Bird_update (1 / 10) ((Bird BIRD_X (HEIGHT div 2))\<lparr>vel := 790\<rparr>)) = 440
   \<and> vel (Bird_update (1 / 10) ((Bird BIRD_X (HEIGHT div 2))\<lparr>vel := - 2000\<rparr>)) = - 1000
   \<and> bird_y (Bird_update (1 / 10) ((Bird BIRD_X (HEIGHT div 2))\<lparr>vel := - 2000\<rparr>)) = 260
   \<and> vel (flap ((Bird BIRD_X (HEIGHT div 2))\<lparr>vel := 790\<rparr>)) = - 380"
proof -
  have a: "vel (Bird_update (1 / 10) (flap (Bird BIRD_X (HEIGHT div 2)))) = - 280"
    using flap_then_integrate [where b = "Bird BIRD_X (HEIGHT div 2)" and dt = "1 / 10"
        and e = env_ok]
    by blast
  have b: "bird_y (Bird_update (1 / 10) (flap (Bird BIRD_X (HEIGHT div 2))))
      = bird_y (flap (Bird BIRD_X (HEIGHT div 2)))
        + vel (Bird_update (1 / 10) (flap (Bird BIRD_X (HEIGHT div 2)))) * (1 / 10)"
    using flap_then_integrate [where b = "flap (Bird BIRD_X (HEIGHT div 2))" and dt = "1 / 10"
        and e = env_ok]
    by blast
  have c: "vel (Bird_update (1 / 10) ((Bird BIRD_X (HEIGHT div 2))\<lparr>vel := 790\<rparr>))
      = clamp (vel ((Bird BIRD_X (HEIGHT div 2))\<lparr>vel := 790\<rparr>) + GRAVITY * (1 / 10)) (- 1000)
          MAX_FALL_SPEED"
    "bird_y (Bird_update (1 / 10) ((Bird BIRD_X (HEIGHT div 2))\<lparr>vel := 790\<rparr>))
      = bird_y ((Bird BIRD_X (HEIGHT div 2))\<lparr>vel := 790\<rparr>)
        + vel (Bird_update (1 / 10) ((Bird BIRD_X (HEIGHT div 2))\<lparr>vel := 790\<rparr>)) * (1 / 10)"
    using flap_then_integrate [where b = "(Bird BIRD_X (HEIGHT div 2))\<lparr>vel := 790\<rparr>"
        and dt = "1 / 10" and e = env_ok]
    by blast+
  have d: "vel (Bird_update (1 / 10) ((Bird BIRD_X (HEIGHT div 2))\<lparr>vel := - 2000\<rparr>))
      = clamp (vel ((Bird BIRD_X (HEIGHT div 2))\<lparr>vel := - 2000\<rparr>) + GRAVITY * (1 / 10))
          (- 1000) MAX_FALL_SPEED"
    "bird_y (Bird_update (1 / 10) ((Bird BIRD_X (HEIGHT div 2))\<lparr>vel := - 2000\<rparr>))
      = bird_y ((Bird BIRD_X (HEIGHT div 2))\<lparr>vel := - 2000\<rparr>)
        + vel (Bird_update (1 / 10) ((Bird BIRD_X (HEIGHT div 2))\<lparr>vel := - 2000\<rparr>)) * (1 / 10)"
    using flap_then_integrate [where b = "(Bird BIRD_X (HEIGHT div 2))\<lparr>vel := - 2000\<rparr>"
        and dt = "1 / 10" and e = env_ok]
    by blast+
  have f: "vel (flap ((Bird BIRD_X (HEIGHT div 2))\<lparr>vel := 790\<rparr>)) = - 380"
    using flap_then_integrate [where b = "Bird BIRD_X (HEIGHT div 2)" and v = 790
        and dt = "1 / 10" and e = env_ok]
    by blast
  from a b c d f show ?thesis
    by (simp add: flap_def Bird_def clamp_def config_defs)
qed

subsection \<open>C10: at most one life is lost in a frame\<close>

text \<open>
  C10. One call of \<^verbatim>\<open>handle_collisions\<close>, and so one call of \<^verbatim>\<open>update\<close>, takes at most
  one life and gives none: a pipe hit sets the invulnerability timer to 1.6, which
  closes the ground check of the same call. In the instance that follows the theorem the
  bird is inside a pipe and on the ground at once, and the frame takes one life.
\<close>

theorem one_life_per_tick:
  "lives g - 1 \<le> lives (update dt e g) \<and> lives (update dt e g) \<le> lives g
   \<and> lives g - 1 \<le> lives (handle_collisions e g) \<and> lives (handle_collisions e g) \<le> lives g
   \<and> invulnerable_timer (hit_pipe e g) = 16 / 10"
  using update_lives_cases [of dt e g] handle_collisions_lives [of e g]
  by (auto simp: INVULNERABILITY_AFTER_HIT_def)

theorem one_life_per_tick_witness:
  "lives game_pipe_and_ground = 3
   \<and> real_of_int (HEIGHT - 30)
       \<le> bird_y (bird game_pipe_and_ground) + real_of_int (bird_radius (bird game_pipe_and_ground))
   \<and> pipe_collides_with_circle (hd (pipes game_pipe_and_ground))
       (get_circle (bird game_pipe_and_ground))
   \<and> lives (update (2 / 125) env_ok game_pipe_and_ground) = 2"
  using one_life_per_tick [of game_pipe_and_ground "2 / 125" env_ok]
  by (simp add: pipe_and_ground_after pipe_and_ground_fields get_circle_def Bird_def Pipe_def
      pipe_collides_with_circle_def circle_rect_collision_def clamp_def py_trunc_def
      rect_right_def rect_bottom_def config_defs Let_def)

subsection \<open>C2: the shield\<close>

text \<open>
  C2, as stated, fails: the timers are decreased before the collisions are handled, so a
  shield with less time left than \<open>dt\<close> is deleted in the same call and does not protect.
  Here the shield has 8 ms left, the frame takes 16 ms, and the bird is on the ground.
\<close>

theorem shield_expiring_counterexample:
  "powerup_timers game_low_shield ''shield'' = Some (1 / 125)
   \<and> lives (update (2 / 125) env_ok game_low_shield) < lives game_low_shield"
proof -
  note f = game_low_shield_fields
  have due: "time_since_last_pipe game_low_shield + 2 / 125 < spawn_interval game_low_shield"
    by (simp add: f spawn_interval_def difficulty_zero)
  have "lives (update (2 / 125) env_ok game_low_shield) < lives game_low_shield"
    by (simp add: update_no_entities [OF f(1) f(2) f(3) due] handle_collisions_eq Let_def f
        update_timers_def update_particles_def tick_timers_def timer_get_def get_circle_def
        Bird_update_def Bird_def clamp_def config_defs)
  then show ?thesis by (simp add: f)
qed

text \<open>
  C2, amended. When the shield has more time left than the frame takes (so that it is
  still there after the timers are decreased), the call of \<^verbatim>\<open>update\<close> leaves the lives as
  they are.
\<close>

theorem shield_keeps_lives:
  assumes "powerup_timers g ''shield'' = Some t" and "dt < t"
  shows "lives (update dt e g) = lives g"
  using assms by (rule update_shield)

theorem shield_keeps_lives_witness:
  "powerup_timers (game_low_shield\<lparr>powerup_timers := [''shield'' \<mapsto> 4]\<rparr>) ''shield'' = Some 4
   \<and> (2 / 125 :: real) < 4
   \<and> lives (update (2 / 125) env_ok (game_low_shield\<lparr>powerup_timers := [''shield'' \<mapsto> 4]\<rparr>)) = 3"
  using shield_keeps_lives
    [of "game_low_shield\<lparr>powerup_timers := [''shield'' \<mapsto> 4]\<rparr>" 4 "2 / 125" env_ok]
  by (simp add: game_low_shield_fields)

subsection \<open>C7: nothing of the game moves outside PLAYING\<close>

text \<open>
  C7. In a state other than PLAYING a call of \<^verbatim>\<open>update\<close> changes the clouds only: the
  bird, the pipes, the power-ups, the score, the lives, the invulnerability timer, the
  timers of the effects and the state are as before.
\<close>

theorem frozen_outside_playing:
  assumes "state g \<noteq> PLAYING"
  shows "update dt e g = g\<lparr>clouds := map (move_cloud dt) (clouds g)\<rparr>
    \<and> bird (update dt e g) = bird g \<and> pipes (update dt e g) = pipes g
    \<and> powerups (update dt e g) = powerups g \<and> score (update dt e g) = score g
    \<and> lives (update dt e g) = lives g
    \<and> invulnerable_timer (update dt e g) = invulnerable_timer g
    \<and> powerup_timers (update dt e g) = powerup_timers g
    \<and> state (update dt e g) = state g"
  using assms by (simp add: update_not_playing)

theorem frozen_outside_playing_witness:
  "state (game_low_shield\<lparr>state := PAUSED\<rparr>) \<noteq> PLAYING
   \<and> bird_y (bird (update (1 / 2) env_ok (game_low_shield\<lparr>state := PAUSED\<rparr>))) = 680
   \<and> lives (update (1 / 2) env_ok (game_low_shield\<lparr>state := PAUSED\<rparr>)) = 3
   \<and> powerup_timers (update (1 / 2) env_ok (game_low_shield\<lparr>state := PAUSED\<rparr>)) ''shield''
       = Some (1 / 125)"
  using frozen_outside_playing [of "game_low_shield\<lparr>state := PAUSED\<rparr>" "1 / 2" env_ok]
  by (simp add: game_low_shield_fields)

subsection \<open>C4: a pipe is counted once\<close>



subsection \<open>C8: restart\<close>

text \<open>
  C8. In state GAME_OVER the key R resets the session and starts to play: the state is
  PLAYING, the score 0, the lives \<open>START_LIVES\<close>, there are no pipes and no power-ups,
  the invulnerability timer and the spawn timer are 0, no effect is active, the bird is
  new, and the high score in memory is what it was.
\<close>

theorem restart_resets:
  assumes "state g = GAME_OVER"
  shows "\<exists>g'. handle_event e (KEYDOWN K_r) g = Inr g'
     \<and> handle_input e [KEYDOWN K_r] g = Inr g'
     \<and> state g' = PLAYING \<and> score g' = 0 \<and> lives g' = START_LIVES
     \<and> pipes g' = [] \<and> powerups g' = [] \<and> invulnerable_timer g' = 0
     \<and> powerup_timers g' = Map.empty \<and> time_since_last_pipe g' = 0
     \<and> bird g' = Bird BIRD_X (HEIGHT div 2)
     \<and> high_score g' = high_score g"
  using assms by (simp add: reset_fields)

theorem restart_resets_witness:
  "state game_lost = GAME_OVER \<and> score game_lost = 7
   \<and> (\<exists>g'. handle_event env_ok (KEYDOWN K_r) game_lost = Inr g'
        \<and> state g' = PLAYING \<and> score g' = 0 \<and> lives g' = 3 \<and> pipes g' = []
        \<and> high_score g' = 5)"
  using restart_resets [of game_lost env_ok]
  by (auto simp: game_lost_fields START_LIVES_def)

subsection \<open>C6: difficulty, speed and the spawning of pipes\<close>

text \<open>
  C6. In every state that the program reaches, a call of \<^verbatim>\<open>update\<close> in state PLAYING
  works with the difficulty factor \<open>1 + ln(1 + max(0, score)) * 0.05\<close>, with the speed
  \<open>PIPE_SPEED_BASE * difficulty\<close>, times 0.6 when the slow effect is active, and with
  the spawn interval \<open>max(1, PIPE_SPAWN_INTERVAL / difficulty)\<close>: every pipe moves left
  by speed times \<open>dt\<close>, a pipe is spawned exactly when the spawn timer, with \<open>dt\<close> added,
  has reached the interval, and the timer is then 0 (and otherwise the sum).
\<close>

theorem difficulty_speed_spawn:
  assumes "reachable g" and "state g = PLAYING"
  shows "difficulty_factor g = 1 + ln (real_of_int (1 + max 0 (score g))) * (5 / 100)
    \<and> speed g = PIPE_SPEED_BASE * difficulty_factor g
                  * (if 0 < timer_get (powerup_timers g) ''slow'' then 6 / 10 else 1)
    \<and> spawn_interval g = max 1 (PIPE_SPAWN_INTERVAL / difficulty_factor g)
    \<and> pipes (update dt e g) =
        filter (\<lambda>q. \<not> off_screen q)
          (map (pipe_after dt (speed g) (bird_x (bird g))) (pipes (spawn_stage dt e g)))
    \<and> pipes (spawn_stage dt e g) =
        (if spawn_interval g \<le> time_since_last_pipe g + dt
         then pipes g @ [Pipe (WIDTH + 40)
                           (randint e (calls g) PIPE_MIN_TOP (HEIGHT - PIPE_GAP - 140))
                           PIPE_GAP (choice e (calls g + 1) PIPE_PALETTE)]
         else pipes g)
    \<and> time_since_last_pipe (update dt e g) =
        (if spawn_interval g \<le> time_since_last_pipe g + dt then 0
         else time_since_last_pipe g + dt)
    \<and> pipe_x (pipe_after dt (speed g) (bird_x (bird g)) p) = pipe_x p - speed g * dt"
proof -
  note sc = reachable_scaling [OF assms(1)]
  have "difficulty_factor g = 1 + ln (real_of_int (1 + max 0 (score g))) * (5 / 100)"
    by (simp add: difficulty_factor_def)
  moreover have "speed g = PIPE_SPEED_BASE * difficulty_factor g
                  * (if 0 < timer_get (powerup_timers g) ''slow'' then 6 / 10 else 1)"
    using sc by (simp add: speed_def)
  moreover have "spawn_interval g = max 1 (PIPE_SPAWN_INTERVAL / difficulty_factor g)"
    using sc by (simp add: spawn_interval_def)
  ultimately show ?thesis
    using update_pipes_of_update [OF assms(2), of dt e] update_time [OF assms(2), of dt e]
      spawn_stage_pipes [of dt e g]
    by (simp add: pipe_after_x)
qed

theorem difficulty_speed_spawn_witness:
  "reachable (update (2 / 125) env_ok game_start)
   \<and> state (update (2 / 125) env_ok game_start) = PLAYING
   \<and> difficulty_factor (update (2 / 125) env_ok game_start) = 1
   \<and> speed (update (2 / 125) env_ok game_start) = 180
   \<and> spawn_interval (update (2 / 125) env_ok game_start) = 16 / 10
   \<and> time_since_last_pipe (update (1 / 10) env_ok (update (2 / 125) env_ok game_start))
       = 29 / 250
   \<and> map pipe_x (pipes (update 2 env_ok (update (2 / 125) env_ok game_start))) = [160]
   \<and> time_since_last_pipe (update 2 env_ok (update (2 / 125) env_ok game_start)) = 0"
  using difficulty_speed_spawn
      [OF reachable_game_start first_frame_fields(1), of "1 / 10" env_ok]
    difficulty_speed_spawn [OF reachable_game_start first_frame_fields(1), of 2 env_ok]
  by (simp add: reachable_game_start first_frame_fields timer_get_def pipe_after_x
      Pipe_def off_screen_def config_defs)

subsection \<open>C1: a negative dt\<close>

text \<open>
  C1, as stated, fails: \<^verbatim>\<open>update\<close> neither clamps nor rejects a negative \<open>dt\<close>. In
  state PLAYING the call with \<open>dt = -1\<close> ends in another state than the call with
  \<open>dt = 0\<close> (the spawn timer is -1 and not 0).
\<close>

theorem negative_dt_counterexample:
  "update (- 1) env_ok game_start \<noteq> update 0 env_ok game_start"
proof
  assume "update (- 1) env_ok game_start = update 0 env_ok game_start"
  then have "time_since_last_pipe (update (- 1) env_ok game_start)
      = time_since_last_pipe (update 0 env_ok game_start)"
    by simp
  then show False
    by (simp add: update_time game_start_fields spawn_interval_def difficulty_zero)
qed

text \<open>
  C1, amended. \<^verbatim>\<open>update\<close> takes \<open>dt\<close> as it is given. In a state other than PLAYING the
  game after a call with any \<open>dt\<close>, negative ones too, is the game after a call with
  \<open>dt = 0\<close> but for the clouds. In state PLAYING the spawn timer after the call is the
  timer plus \<open>dt\<close>, or 0 when that sum has reached the spawn interval.
\<close>

theorem dt_used_as_given:
  "(state g \<noteq> PLAYING \<longrightarrow>
      (update dt e g)\<lparr>clouds := cs\<rparr> = (update 0 e g)\<lparr>clouds := cs\<rparr>)
   \<and> (state g = PLAYING \<longrightarrow>
      time_since_last_pipe (update dt e g) =
        (if spawn_interval g \<le> time_since_last_pipe g + dt then 0
         else time_since_last_pipe g + dt))"
  by (simp add: update_not_playing update_time)

theorem dt_used_as_given_witness:
  "state game_lost \<noteq> PLAYING
   \<and> (update (- 1) env_ok game_lost)\<lparr>clouds := []\<rparr> = (update 0 env_ok game_lost)\<lparr>clouds := []\<rparr>
   \<and> state game_start = PLAYING
   \<and> time_since_last_pipe (update (- 1) env_ok game_start) = - 1"
  using dt_used_as_given [where g = game_lost and dt = "- 1" and e = env_ok and cs = "[]"]
    dt_used_as_given [where g = game_start and dt = "- 1" and e = env_ok]
  by (simp add: game_lost_fields game_start_fields spawn_interval_def difficulty_zero)

subsection \<open>C3: the high score at the end of a game\<close>

text \<open>
  C3, as stated, fails: \<^verbatim>\<open>save_highscore\<close> drops every error of the write, so the file
  need not hold the new high score. Here the last life is lost with score 7, the file
  holds 5 and cannot be opened for writing: the game is over and the file still holds 5,
  not \<open>max(5, 7)\<close>.
\<close>

theorem unwritable_file_counterexample:
  "0 < lives game_last_life
   \<and> lives (update (2 / 125) env_readonly game_last_life) = 0
   \<and> state (update (2 / 125) env_readonly game_last_life) = GAME_OVER
   \<and> load_highscore (disk (update (2 / 125) env_readonly game_last_life))
       \<noteq> max (load_highscore (disk game_last_life))
              (score (update (2 / 125) env_readonly game_last_life))"
  by (simp add: last_life_after last_life_disk_readonly game_last_life_fields load_five)

text \<open>
  C3, amended. When a call of \<^verbatim>\<open>update\<close> takes the lives from above 0 to 0 or below, the
  state is GAME_OVER and the high score in memory is the maximum of what it was and the
  final score. If moreover the high score in memory agreed with the file before the call
  and the writes of the file succeed, the high score in the file is afterwards the
  maximum of what the file held and the final score.
\<close>

theorem high_score_at_game_over:
  assumes "0 < lives g" and "lives (update dt e g) \<le> 0"
  shows "state (update dt e g) = GAME_OVER
    \<and> high_score (update dt e g) = max (high_score g) (score (update dt e g))
    \<and> ((\<forall>k. write_at e k = WriteOk) \<and> load_highscore (disk g) = high_score g \<longrightarrow>
         load_highscore (disk (update dt e g))
           = max (load_highscore (disk g)) (score (update dt e g)))"
proof -
  from update_over [OF assms] obtain k where
    st: "state (update dt e g) = GAME_OVER"
    and hs: "high_score (update dt e g) = max (high_score g) (score (update dt e g))"
    and dk: "disk (update dt e g) =
         (if high_score g < score (update dt e g)
          then save_highscore (write_at e k) (score (update dt e g)) (disk g)
          else disk g)"
    by blast
  have "load_highscore (disk (update dt e g))
           = max (load_highscore (disk g)) (score (update dt e g))"
    if "\<forall>k. write_at e k = WriteOk" and "load_highscore (disk g) = high_score g"
    using that by (simp add: dk load_save_roundtrip)
  with st hs show ?thesis by blast
qed

theorem high_score_at_game_over_witness:
  "0 < lives game_last_life
   \<and> lives (update (2 / 125) env_ok game_last_life) \<le> 0
   \<and> write_at env_ok 0 = WriteOk
   \<and> load_highscore (disk game_last_life) = high_score game_last_life
   \<and> state (update (2 / 125) env_ok game_last_life) = GAME_OVER
   \<and> high_score (update (2 / 125) env_ok game_last_life) = 7
   \<and> load_highscore (disk (update (2 / 125) env_ok game_last_life)) = 7"
proof -
  have ok: "\<forall>k. write_at env_ok k = WriteOk"
    by (simp add: env_ok_def)
  have a: "0 < lives game_last_life" "lives (update (2 / 125) env_ok game_last_life) \<le> 0"
    "load_highscore (disk game_last_life) = high_score game_last_life"
    by (simp_all add: last_life_after game_last_life_fields load_five)
  from high_score_at_game_over [OF a(1) a(2)] ok a show ?thesis
    by (simp add: last_life_after game_last_life_fields load_five env_ok_def)
qed

subsection \<open>C9: the high-score file\<close>

text \<open>
  C9. \<^verbatim>\<open>load_highscore\<close> returns 0 when the file is missing and when its text is no
  integer, and the integer otherwise (so the number that \<^verbatim>\<open>save_highscore\<close> wrote is
  read back); every error of its body becomes the result 0. \<^verbatim>\<open>save_highscore\<close> returns
  whatever its body does, an error included, and leaves the file as the body left it. The
  outcome of the writes changes nothing of the game after a call of \<^verbatim>\<open>update\<close> but the
  file.
\<close>

theorem highscore_file_errors_swallowed:
  "load_highscore None = 0
   \<and> load_highscore (Some s) = (case py_int s of Inl err \<Rightarrow> 0 | Inr i \<Rightarrow> i)
   \<and> load_highscore d = (case load_highscore_try d of Inl err \<Rightarrow> 0 | Inr i \<Rightarrow> i)
   \<and> load_highscore (Some (py_str n)) = n
   \<and> save_highscore w n d = snd (save_highscore_try w n d)
   \<and> (update dt (e\<lparr>write_at := w'\<rparr>) g)\<lparr>disk := x\<rparr> = (update dt e g)\<lparr>disk := x\<rparr>"
proof -
  have "load_highscore (Some (py_str n)) = n"
    using load_save_roundtrip [of n d] by (simp add: save_highscore_def save_highscore_try_def)
  moreover have "load_highscore d = (case load_highscore_try d of Inl err \<Rightarrow> 0 | Inr i \<Rightarrow> i)"
    by (simp add: load_highscore_def)
  moreover have "save_highscore w n d = snd (save_highscore_try w n d)"
    by (simp add: save_highscore_def save_highscore_try_def split: write_outcome.split)
  ultimately show ?thesis
    by (simp add: load_highscore_eq update_write_upd)
qed

theorem highscore_file_errors_swallowed_witness:
  "load_highscore None = 0 \<and> load_highscore (Some '''') = 0
   \<and> load_highscore (Some ''12a'') = 0 \<and> load_highscore (Some '' 42 '') = 42
   \<and> save_highscore OpenFails 7 (Some ''5'') = Some ''5''
   \<and> save_highscore WriteFails 7 (Some ''5'') = Some ''''"
  using highscore_file_errors_swallowed [where d = None and s = "''''" and w = OpenFails
      and n = 7 and g = game_start and e = env_ok and dt = 0]
    highscore_file_errors_swallowed [where d = "Some ''12a''" and s = "''12a''" and w = WriteFails
      and n = 7 and g = game_start and e = env_ok and dt = 0]
    highscore_file_errors_swallowed [where d = "Some '' 42 ''" and s = "'' 42 ''"
      and w = OpenFails and n = 7 and g = game_start and e = env_ok and dt = 0]
    highscore_file_errors_swallowed [where d = "Some ''5''" and s = "''''" and w = OpenFails
      and n = 7 and g = game_start and e = env_ok and dt = 0]
    highscore_file_errors_swallowed [where d = "Some ''5''" and s = "''''" and w = WriteFails
      and n = 7 and g = game_start and e = env_ok and dt = 0]
    highscore_file_errors_swallowed [where d = "Some ''''" and s = "''''" and w = WriteFails
      and n = 7 and g = game_start and e = env_ok and dt = 0]
  by (simp add: save_highscore_try_def py_int_def strip_def is_space_def int_unsigned_def
      is_digit_def digit_of_def)

end
